theory Spec2Isabelle
  imports Main "HOL-Library.Word" "HOL-Library.Sublist"
begin

section \<open>Strings and truthiness of the JavaScript source\<close>

text \<open>
  A JavaScript string is a sequence of UTF-16 code units: \<open>length\<close> and \<open>slice\<close> of the
  source count code units, so the model does too. \<open>lit\<close> embeds an ASCII literal of the
  source.
\<close>

type_synonym jsstring = "16 word list"

definition lit :: "string \<Rightarrow> jsstring" where
  "lit s = map (\<lambda>c. of_nat (of_char c)) s"

text \<open>\<open>!x\<close> on a value that is a string or \<open>undefined\<close>: only a non-empty string is truthy.\<close>

fun truthy :: "jsstring option \<Rightarrow> bool" where
  "truthy None = False"
| "truthy (Some s) = (s \<noteq> [])"

text \<open>\<open>a || b\<close> on such a value.\<close>

fun orElse :: "jsstring option \<Rightarrow> jsstring \<Rightarrow> jsstring" where
  "orElse None d = d"
| "orElse (Some s) d = (if s \<noteq> [] then s else d)"

text \<open>\<open>String.prototype.includes\<close>: the pattern occurs as a contiguous run.\<close>

fun includes_str :: "'a list \<Rightarrow> 'a list \<Rightarrow> bool" where
  "includes_str [] p = (p = [])"
| "includes_str (x # xs) p = (prefix p (x # xs) \<or> includes_str xs p)"

section \<open>Data model\<close>

datatype role = User | Assistant

text \<open>A message as the handlers push it: \<open>{ role, content }\<close>.\<close>

record message =
  role :: role
  content :: jsstring

text \<open>
  A \<open>ChatSession\<close> document, with the fields the server reads and writes. \<open>oid\<close> is the
  document's \<open>_id\<close>; \<open>owner\<close> is compared through \<open>String(...)\<close>, so it is kept as the
  string.
\<close>

record session =
  oid :: jsstring
  title :: jsstring
  owner :: jsstring
  messages :: "message list"
  shareToken :: "jsstring option"
  lastUpdated :: nat

text \<open>The process environment the handlers read.\<close>

record env =
  GEMINI_API_KEY :: "jsstring option"
  GEMINI_MODEL :: "jsstring option"
  APP_URL :: "jsstring option"

text \<open>The JSON payload of \<open>data?.candidates?.[0]?.content?.parts?.[0]?.text\<close> and
  \<open>data?.promptFeedback?.blockReason\<close>: each is a string or absent.\<close>

record gemini_data =
  candidateText :: "jsstring option"
  blockReason :: "jsstring option"

text \<open>The request the relay sends to the provider (the numeric generation settings are
  constants of the source and are left out).\<close>

record provider_request =
  endpoint :: jsstring
  api_key_header :: jsstring
  prompt_text :: jsstring

text \<open>
  What \<open>await fetch(...)\<close> gives: the promise rejects (\<open>Rejected\<close>, with \<open>String(err)\<close>),
  or a response arrives with its status, its body as text, and the result of
  \<open>response.json()\<close>, which throws (\<open>Inl\<close>, with \<open>String(err)\<close>) or parses.
\<close>

datatype fetch_result =
  Rejected jsstring
| Responded nat jsstring "jsstring + gemini_data"

text \<open>Response bodies, one constructor per shape of object passed to \<open>res.json\<close>.\<close>

datatype body =
  ErrorBody jsstring
| SessionBody session
| MessageBody jsstring
| ShareBody jsstring jsstring
| ReplyBody jsstring
| UpstreamBody nat jsstring "jsstring option"
| MalformedBody gemini_data

record response =
  status :: nat
  body :: body

definition json :: "nat \<Rightarrow> body \<Rightarrow> response" where
  "json st b = \<lparr>status = st, body = b\<rparr>"

section \<open>The session repository\<close>

text \<open>
  The collection is the list of its documents in insertion order; \<open>oid\<close> holds the text
  of the document's object id as \<open>String(_id)\<close> gives it. The Mongoose model is not part
  of the sources; its calls are modelled as the document store executes them: a call that
  addresses a document by \<open>_id\<close> first casts the string it is given to an object id and
  compares object ids, so every spelling of an id reaches the same document, and it
  throws a cast error when the string is no object id. The cast is the parameter \<open>cast\<close>
  of the model: it gives the text of the object id, or nothing when the cast fails.
  \<open>mongoose.Types.ObjectId.isValid\<close>, with which the relay handler guards its lookup, is
  the parameter \<open>isValid\<close>. Outages of the store are not modelled.
\<close>

definition castError :: "jsstring \<Rightarrow> jsstring" where
  "castError i = lit ''Cast to ObjectId failed for value '' @ [0x22] @ i @ [0x22]
                 @ lit '' (type string) at path '' @ [0x22] @ lit ''_id'' @ [0x22]
                 @ lit '' for model '' @ [0x22] @ lit ''ChatSession'' @ [0x22]"

definition findById ::
  "(jsstring \<Rightarrow> jsstring option) \<Rightarrow> session list \<Rightarrow> jsstring \<Rightarrow> jsstring + session option" where
  "findById cast db i =
     (case cast i of
        None \<Rightarrow> Inl (castError i)
      | Some k \<Rightarrow> Inr (find (\<lambda>s. oid s = k) db))"

text \<open>The store updates or removes the first document with the object id.\<close>

fun updateFirst :: "session list \<Rightarrow> jsstring \<Rightarrow> (session \<Rightarrow> session) \<Rightarrow> session list" where
  "updateFirst [] k f = []"
| "updateFirst (s # db) k f =
     (if oid s = k then f s # db else s # updateFirst db k f)"

fun deleteFirst :: "session list \<Rightarrow> jsstring \<Rightarrow> session list" where
  "deleteFirst [] k = []"
| "deleteFirst (s # db) k =
     (if oid s = k then db else s # deleteFirst db k)"

definition findByIdAndUpdate ::
  "(jsstring \<Rightarrow> jsstring option) \<Rightarrow> session list \<Rightarrow> jsstring \<Rightarrow> (session \<Rightarrow> session)
   \<Rightarrow> jsstring + session list" where
  "findByIdAndUpdate cast db i f =
     (case cast i of
        None \<Rightarrow> Inl (castError i)
      | Some k \<Rightarrow> Inr (updateFirst db k f))"

definition findByIdAndDelete ::
  "(jsstring \<Rightarrow> jsstring option) \<Rightarrow> session list \<Rightarrow> jsstring \<Rightarrow> jsstring + session list" where
  "findByIdAndDelete cast db i =
     (case cast i of
        None \<Rightarrow> Inl (castError i)
      | Some k \<Rightarrow> Inr (deleteFirst db k))"

definition findOneByShareToken :: "session list \<Rightarrow> jsstring \<Rightarrow> session option" where
  "findOneByShareToken db t = find (\<lambda>s. shareToken s = Some t) db"

text \<open>\<open>ChatSession.create\<close>: the store refuses a second document with the same \<open>_id\<close>.\<close>

definition create :: "session list \<Rightarrow> session \<Rightarrow> jsstring + session list" where
  "create db s =
     (if oid s \<in> set (map oid db) then Inl (lit ''E11000 duplicate key error'')
      else Inr (db @ [s]))"

section \<open>The message relay\<close>

definition echoReply :: "jsstring \<Rightarrow> jsstring" where
  "echoReply input =
     lit ''Echo (dev): '' @ input @ [0x20, 0x2014, 0x20] @ lit ''set GEMINI_API_KEY to use real Gemini.''"

definition systemInstruction :: jsstring where
  "systemInstruction =
     lit ''You are a helpful assistant. Always respond in common, unformatted, plain text only. Do not use Markdown, symbols like asterisks (*), or hashtags (#) for formatting.''
     @ [0x0A, 0x0A]"

definition modelName :: "env \<Rightarrow> jsstring" where
  "modelName e = orElse (GEMINI_MODEL e) (lit ''gemini-2.5-flash'')"

definition providerRequest :: "env \<Rightarrow> jsstring \<Rightarrow> jsstring \<Rightarrow> provider_request" where
  "providerRequest e apiKey input =
     \<lparr>endpoint = lit ''https://generativelanguage.googleapis.com/v1beta/models/''
                  @ modelName e @ lit '':generateContent'',
      api_key_header = apiKey,
      prompt_text = systemInstruction @ input\<rparr>"

text \<open>\<open>response.ok\<close>\<close>

definition ok :: "nat \<Rightarrow> bool" where
  "ok st = (200 \<le> st \<and> st \<le> 299)"

definition hint :: "env \<Rightarrow> nat \<Rightarrow> jsstring \<Rightarrow> jsstring option" where
  "hint e st errorBody =
     (if st = 404 then
        Some (lit ''404 Not Found. Check the Model Name ('' @ modelName e
              @ lit '') and API version (v1beta). Try regenerating your API key.'')
      else if st = 403 then
        Some (lit ''403 Forbidden. Your API key may be invalid, or billing/quota limits may be reached.'')
      else if st = 400 \<and> includes_str errorBody (lit ''API_KEY_INVALID'') then
        Some (lit ''400 Bad Request / API_KEY_INVALID. The API key is likely incorrect or expired.'')
      else None)"

text \<open>The \<open>$push\<close> of the pair together with the refreshed \<open>lastUpdated\<close>: the two
  messages given to \<open>$push\<close> are appended to the array one after the other.\<close>

definition pushPair :: "jsstring \<Rightarrow> jsstring \<Rightarrow> nat \<Rightarrow> session \<Rightarrow> session" where
  "pushPair input reply now s =
     s\<lparr>messages := messages s @ [\<lparr>role = User, content = input\<rparr>,
                                   \<lparr>role = Assistant, content = reply\<rparr>],
       lastUpdated := now\<rparr>"

text \<open>\<open>input.slice(0, 50) + (input.length > 50 ? '...' : '')\<close>\<close>

definition derivedTitle :: "jsstring \<Rightarrow> jsstring" where
  "derivedTitle input = take 50 input @ (if length input > 50 then lit ''...'' else [])"

definition blockNotice :: "jsstring \<Rightarrow> jsstring" where
  "blockNotice reason = lit ''Your prompt was blocked due to: '' @ reason @ lit ''.''"

text \<open>\<open>String(err)\<close> of an error the store throws.\<close>

definition errorString :: "jsstring \<Rightarrow> jsstring" where
  "errorString message = lit ''CastError: '' @ message"

text \<open>
  The branch \<open>if (reply)\<close>: push the pair, read the session again, and set the title
  when it now holds exactly two messages. Whatever a call of the store throws, and the
  reading of \<open>session.messages\<close> of a session that is gone, ends in the enclosing
  \<open>catch\<close>, which answers 500 and leaves what was written before.
\<close>

definition onReply ::
  "(jsstring \<Rightarrow> jsstring option) \<Rightarrow> nat \<Rightarrow> session list \<Rightarrow> jsstring \<Rightarrow> jsstring \<Rightarrow> jsstring
   \<Rightarrow> response \<times> session list" where
  "onReply cast now db sessionId inp reply =
     (case findByIdAndUpdate cast db sessionId (pushPair inp reply now) of
        Inl err \<Rightarrow> (json 500 (ErrorBody (errorString err)), db)
      | Inr db1 \<Rightarrow>
          (case findById cast db1 sessionId of
             Inl err \<Rightarrow> (json 500 (ErrorBody (errorString err)), db1)
           | Inr None \<Rightarrow>
               (json 500 (ErrorBody (lit ''TypeError: Cannot read properties of null'')), db1)
           | Inr (Some session2) \<Rightarrow>
               (if length (messages session2) = 2
                then (case findByIdAndUpdate cast db1 sessionId
                             (\<lambda>s. s\<lparr>title := derivedTitle inp\<rparr>) of
                        Inl err \<Rightarrow> (json 500 (ErrorBody (errorString err)), db1)
                      | Inr db2 \<Rightarrow> (json 200 (ReplyBody reply), db2))
                else (json 200 (ReplyBody reply), db1))))"

text \<open>The branch \<open>else if (data?.promptFeedback?.blockReason)\<close>.\<close>

definition onBlocked ::
  "(jsstring \<Rightarrow> jsstring option) \<Rightarrow> nat \<Rightarrow> session list \<Rightarrow> jsstring \<Rightarrow> jsstring \<Rightarrow> jsstring
   \<Rightarrow> response \<times> session list" where
  "onBlocked cast now db sessionId inp reason =
     (case findByIdAndUpdate cast db sessionId (pushPair inp (blockNotice reason) now) of
        Inl err \<Rightarrow> (json 500 (ErrorBody (errorString err)), db)
      | Inr db1 \<Rightarrow> (json 200 (ReplyBody (blockNotice reason)), db1))"

text \<open>The body of the \<open>try\<close> once \<open>fetch\<close> has answered.\<close>

definition onFetched ::
  "(jsstring \<Rightarrow> jsstring option) \<Rightarrow> env \<Rightarrow> nat \<Rightarrow> session list \<Rightarrow> jsstring \<Rightarrow> jsstring
   \<Rightarrow> fetch_result \<Rightarrow> response \<times> session list" where
  "onFetched cast e now db sessionId inp r =
     (case r of
        Rejected err \<Rightarrow> (json 500 (ErrorBody err), db)
      | Responded st errorBody parsed \<Rightarrow>
          (if \<not> ok st then (json 502 (UpstreamBody st errorBody (hint e st errorBody)), db)
           else (case parsed of
              Inl err \<Rightarrow> (json 500 (ErrorBody err), db)
            | Inr data \<Rightarrow>
                (if truthy (candidateText data)
                 then onReply cast now db sessionId inp (orElse (candidateText data) [])
                 else if truthy (blockReason data)
                 then onBlocked cast now db sessionId inp (orElse (blockReason data) [])
                 else (json 502 (MalformedBody data), db)))))"

text \<open>
  \<open>POST /api/chat/sessions/:sessionId/messages\<close>, after the authentication middleware
  has set \<open>userId\<close>. The result is the response, the collection afterwards, and the
  requests sent to the provider. \<open>fetch\<close> is the provider as seen from the call, \<open>now\<close>
  the value of \<open>new Date()\<close>.
\<close>

definition relay ::
  "(jsstring \<Rightarrow> bool) \<Rightarrow> (jsstring \<Rightarrow> jsstring option) \<Rightarrow> env
   \<Rightarrow> (provider_request \<Rightarrow> fetch_result) \<Rightarrow> nat
   \<Rightarrow> session list \<Rightarrow> jsstring \<Rightarrow> jsstring \<Rightarrow> jsstring option
   \<Rightarrow> response \<times> session list \<times> provider_request list" where
  "relay isValid cast e fetch now db sessionId userId input =
     (if \<not> truthy input then (json 400 (ErrorBody (lit ''Missing input'')), db, [])
      else if sessionId = [] then (json 400 (ErrorBody (lit ''Missing session ID'')), db, [])
      else if \<not> isValid sessionId then
        (json 400 (ErrorBody (lit ''Invalid session ID format'')), db, [])
      else (case findById cast db sessionId of
         Inl err \<Rightarrow>
           (json 500 (ErrorBody (lit ''Error verifying chat session: '' @ err)), db, [])
       | Inr None \<Rightarrow> (json 404 (ErrorBody (lit ''Chat session not found'')), db, [])
       | Inr (Some session) \<Rightarrow>
           (if owner session \<noteq> userId then (json 403 (ErrorBody (lit ''Forbidden'')), db, [])
            else if \<not> truthy (GEMINI_API_KEY e) then
              (json 200 (ReplyBody (echoReply (orElse input []))), db, [])
            else
              (let rq = providerRequest e (orElse (GEMINI_API_KEY e) []) (orElse input []);
                   (res, db') = onFetched cast e now db sessionId (orElse input []) (fetch rq)
               in (res, db', [rq])))))"

section \<open>The session manager\<close>

text \<open>
  \<open>authMiddleware\<close>: the header must be present and start with \<open>Bearer \<close>; the token
  is \<open>auth.split(' ')[1]\<close>, the text between the first and the second space.
  \<open>jwt.verify\<close> with the server's secret is the parameter \<open>verify\<close>, giving the subject
  of the token or nothing when it throws.
\<close>

definition authMiddleware :: "(jsstring \<Rightarrow> jsstring option) \<Rightarrow> jsstring option \<Rightarrow> response + jsstring" where
  "authMiddleware verify auth =
     (if \<not> truthy auth \<or> \<not> prefix (lit ''Bearer '') (orElse auth []) then
        Inl (json 401 (ErrorBody (lit ''Missing or invalid Authorization header'')))
      else (case verify (takeWhile (\<lambda>c. c \<noteq> 0x20) (drop 7 (orElse auth []))) of
         None \<Rightarrow> Inl (json 401 (ErrorBody (lit ''Invalid token'')))
       | Some sub \<Rightarrow> Inr sub))"

text \<open>
  \<open>POST /api/chat/sessions\<close>. \<open>newId\<close> is the \<open>_id\<close> the store assigns and \<open>now\<close> the
  time of the call, which the schema (not part of the sources) gives to \<open>lastUpdated\<close>.
\<close>

definition createSession ::
  "nat \<Rightarrow> jsstring \<Rightarrow> session list \<Rightarrow> jsstring \<Rightarrow> jsstring option \<Rightarrow> response \<times> session list" where
  "createSession now newId db userId titleHint =
     (let session = \<lparr>oid = newId, title = orElse titleHint (lit ''New Chat''), owner = userId,
                      messages = [], shareToken = None, lastUpdated = now\<rparr> in
      case create db session of
        Inl err \<Rightarrow> (json 500 (ErrorBody (lit ''Error creating chat session: '' @ err)), db)
      | Inr db' \<Rightarrow> (json 200 (SessionBody session), db'))"

text \<open>\<open>GET /api/chat/sessions/:sessionId\<close>\<close>

definition getSession ::
  "(jsstring \<Rightarrow> jsstring option) \<Rightarrow> session list \<Rightarrow> jsstring \<Rightarrow> jsstring \<Rightarrow> response" where
  "getSession cast db sessionId userId =
     (case findById cast db sessionId of
        Inl err \<Rightarrow> json 500 (ErrorBody (lit ''Error fetching chat session''))
      | Inr None \<Rightarrow> json 404 (ErrorBody (lit ''Chat session not found''))
      | Inr (Some session) \<Rightarrow>
          (if owner session \<noteq> userId then json 403 (ErrorBody (lit ''Forbidden''))
           else json 200 (SessionBody session)))"

text \<open>\<open>DELETE /api/chat/sessions/:sessionId\<close>\<close>

definition deleteSession ::
  "(jsstring \<Rightarrow> jsstring option) \<Rightarrow> session list \<Rightarrow> jsstring \<Rightarrow> jsstring
   \<Rightarrow> response \<times> session list" where
  "deleteSession cast db sessionId userId =
     (case findById cast db sessionId of
        Inl err \<Rightarrow> (json 500 (ErrorBody (lit ''Error deleting chat session'')), db)
      | Inr None \<Rightarrow> (json 404 (ErrorBody (lit ''Chat session not found'')), db)
      | Inr (Some session) \<Rightarrow>
          (if owner session \<noteq> userId then (json 403 (ErrorBody (lit ''Forbidden'')), db)
           else (case findByIdAndDelete cast db sessionId of
              Inl err \<Rightarrow> (json 500 (ErrorBody (lit ''Error deleting chat session'')), db)
            | Inr db' \<Rightarrow>
                (json 200 (MessageBody (lit ''Chat session deleted successfully'')), db'))))"

text \<open>\<open>Buffer.toString('hex')\<close>: two lower-case hexadecimal digits per byte.\<close>

definition hexDigit :: "nat \<Rightarrow> 16 word" where
  "hexDigit n = (if n < 10 then of_nat (48 + n) else of_nat (87 + n))"

definition toHex :: "8 word list \<Rightarrow> jsstring" where
  "toHex bs = concat (map (\<lambda>b. [hexDigit (unat b div 16), hexDigit (unat b mod 16)]) bs)"

text \<open>
  \<open>POST /api/chat/sessions/:sessionId/share\<close>. \<open>randomBytes\<close> is what
  \<open>crypto.randomBytes(16)\<close> returns in this call, \<open>requestBase\<close> the text
  \<open>${req.protocol}://${req.get('host')}\<close> of the request.
\<close>

definition issueShareToken ::
  "(jsstring \<Rightarrow> jsstring option) \<Rightarrow> env \<Rightarrow> 8 word list \<Rightarrow> jsstring \<Rightarrow> session list
   \<Rightarrow> jsstring \<Rightarrow> jsstring \<Rightarrow> response \<times> session list" where
  "issueShareToken cast e randomBytes requestBase db sessionId userId =
     (case findById cast db sessionId of
        Inl err \<Rightarrow> (json 500 (ErrorBody (lit ''Error generating share token'')), db)
      | Inr None \<Rightarrow> (json 404 (ErrorBody (lit ''Chat session not found'')), db)
      | Inr (Some session) \<Rightarrow>
          (if owner session \<noteq> userId then (json 403 (ErrorBody (lit ''Forbidden'')), db)
           else
             (let token = toHex randomBytes in
              case findByIdAndUpdate cast db sessionId (\<lambda>s. s\<lparr>shareToken := Some token\<rparr>) of
                Inl err \<Rightarrow> (json 500 (ErrorBody (lit ''Error generating share token'')), db)
              | Inr db' \<Rightarrow>
                  (let host = orElse (APP_URL e) requestBase;
                       shareUrl = host @ lit ''/share/'' @ token
                   in (json 200 (ShareBody token shareUrl), db')))))"

text \<open>\<open>GET /api/chat/share/:token\<close>, the handler itself.\<close>

definition getByShareToken :: "session list \<Rightarrow> jsstring \<Rightarrow> response" where
  "getByShareToken db token =
     (case findOneByShareToken db token of
        None \<Rightarrow> json 404 (ErrorBody (lit ''Shared chat not found''))
      | Some session \<Rightarrow> json 200 (SessionBody session))"

text \<open>
  The two read routes as registered: the session route runs \<open>authMiddleware\<close> on the
  request's \<open>Authorization\<close> header first, the share route is registered without it.
\<close>

definition route_get_session ::
  "(jsstring \<Rightarrow> jsstring option) \<Rightarrow> (jsstring \<Rightarrow> jsstring option) \<Rightarrow> session list
   \<Rightarrow> jsstring option \<Rightarrow> jsstring \<Rightarrow> response" where
  "route_get_session verify cast db authorization sessionId =
     (case authMiddleware verify authorization of
        Inl res \<Rightarrow> res
      | Inr userId \<Rightarrow> getSession cast db sessionId userId)"

definition route_get_share ::
  "(jsstring \<Rightarrow> jsstring option) \<Rightarrow> session list \<Rightarrow> jsstring option \<Rightarrow> jsstring \<Rightarrow> response" where
  "route_get_share verify db authorization token = getByShareToken db token"

section \<open>Sequences of operations\<close>

text \<open>One request to a mutating endpoint, with what the environment supplies to it.\<close>

datatype operation =
  Create nat jsstring jsstring "jsstring option"
| Relay "provider_request \<Rightarrow> fetch_result" nat jsstring jsstring "jsstring option"
| Share "8 word list" jsstring jsstring jsstring
| Delete jsstring jsstring

fun step ::
  "(jsstring \<Rightarrow> bool) \<Rightarrow> (jsstring \<Rightarrow> jsstring option) \<Rightarrow> env \<Rightarrow> session list \<Rightarrow> operation
   \<Rightarrow> session list" where
  "step isValid cast e db (Create now newId userId titleHint) =
     snd (createSession now newId db userId titleHint)"
| "step isValid cast e db (Relay fetch now sessionId userId input) =
     fst (snd (relay isValid cast e fetch now db sessionId userId input))"
| "step isValid cast e db (Share randomBytes requestBase sessionId userId) =
     snd (issueShareToken cast e randomBytes requestBase db sessionId userId)"
| "step isValid cast e db (Delete sessionId userId) =
     snd (deleteSession cast db sessionId userId)"

definition run ::
  "(jsstring \<Rightarrow> bool) \<Rightarrow> (jsstring \<Rightarrow> jsstring option) \<Rightarrow> env \<Rightarrow> session list
   \<Rightarrow> operation list \<Rightarrow> session list" where
  "run isValid cast e db ops = foldl (step isValid cast e) db ops"

section \<open>Observations on responses\<close>

text \<open>The owner identity that a response body lets its reader see, if any.\<close>

fun disclosedOwner :: "body \<Rightarrow> jsstring option" where
  "disclosedOwner (SessionBody s) = Some (owner s)"
| "disclosedOwner other = None"

section \<open>Concrete inputs\<close>

text \<open>An instance of \<open>isValid\<close>: the usual text form of an object id, 24 hexadecimal
  digits.\<close>

definition isHexDigit :: "16 word \<Rightarrow> bool" where
  "isHexDigit c = ((0x30 \<le> c \<and> c \<le> 0x39) \<or> (0x41 \<le> c \<and> c \<le> 0x46) \<or> (0x61 \<le> c \<and> c \<le> 0x66))"

definition hex24 :: "jsstring \<Rightarrow> bool" where
  "hex24 s = (length s = 24 \<and> list_all isHexDigit s)"

text \<open>An instance of \<open>cast\<close>: 24 hexadecimal digits are an object id, whose text has the
  letters in lower case; nothing else is one.\<close>

definition lowerHex :: "16 word \<Rightarrow> 16 word" where
  "lowerHex c = (if 0x41 \<le> c \<and> c \<le> 0x46 then c + 0x20 else c)"

definition objectId :: "jsstring \<Rightarrow> jsstring option" where
  "objectId s = (if hex24 s then Some (map lowerHex s) else None)"

definition exampleId :: jsstring where
  "exampleId = lit ''507f1f77bcf86cd799439011''"

text \<open>The same object id, spelled with upper-case letters.\<close>

definition exampleIdUpper :: jsstring where
  "exampleIdUpper = lit ''507F1F77BCF86CD799439011''"

definition otherId :: jsstring where
  "otherId = lit ''507f1f77bcf86cd799439012''"

definition alice :: jsstring where
  "alice = lit ''alice''"

definition bob :: jsstring where
  "bob = lit ''bob''"

definition emptySession :: session where
  "emptySession = \<lparr>oid = exampleId, title = lit ''New Chat'', owner = alice, messages = [],
                     shareToken = None, lastUpdated = 0\<rparr>"

definition sharedSession :: session where
  "sharedSession = emptySession\<lparr>shareToken := Some (lit ''0a'')\<rparr>"


definition bytesA :: "8 word list" where
  "bytesA = [0x00, 0x01, 0x02, 0x03, 0x04, 0x05, 0x06, 0x07,
             0x08, 0x09, 0x0a, 0x0b, 0x0c, 0x0d, 0x0e, 0x0f]"


definition oneExchange :: session where
  "oneExchange = emptySession\<lparr>title := lit ''Hello'',
                              messages := [\<lparr>role = User, content = lit ''Hello''\<rparr>,
                                           \<lparr>role = Assistant, content = lit ''Hi''\<rparr>],
                              lastUpdated := 2\<rparr>"

definition twoExchanges :: session where
  "twoExchanges = oneExchange\<lparr>messages := messages oneExchange
                                  @ [\<lparr>role = User, content = lit ''More''\<rparr>,
                                     \<lparr>role = Assistant,
                                      content = lit ''Your prompt was blocked due to: SAFETY.''\<rparr>],
                              lastUpdated := 3\<rparr>"

text \<open>A \<open>jwt.verify\<close> that accepts no token.\<close>

definition rejectAll :: "jsstring \<Rightarrow> jsstring option" where
  "rejectAll t = None"

definition devEnv :: env where
  "devEnv = \<lparr>GEMINI_API_KEY = None, GEMINI_MODEL = None, APP_URL = None\<rparr>"

definition liveEnv :: env where
  "liveEnv = \<lparr>GEMINI_API_KEY = Some (lit ''key''), GEMINI_MODEL = None,
               APP_URL = Some (lit ''https://chat.example'')\<rparr>"

definition replies :: "jsstring \<Rightarrow> provider_request \<Rightarrow> fetch_result" where
  "replies text rq = Responded 200 [] (Inr \<lparr>candidateText = Some text, blockReason = None\<rparr>)"

definition blocks :: "jsstring \<Rightarrow> provider_request \<Rightarrow> fetch_result" where
  "blocks reason rq = Responded 200 [] (Inr \<lparr>candidateText = None, blockReason = Some reason\<rparr>)"

definition refuses :: "nat \<Rightarrow> jsstring \<Rightarrow> provider_request \<Rightarrow> fetch_result" where
  "refuses st errorBody rq = Responded st errorBody (Inl [])"

text \<open>A success whose body is not JSON: \<open>response.json()\<close> throws.\<close>

definition garbles :: "provider_request \<Rightarrow> fetch_result" where
  "garbles rq = Responded 200 (lit ''<html>'')
                  (Inl (lit ''FetchError: invalid json response body''))"

definition babbles :: "provider_request \<Rightarrow> fetch_result" where
  "babbles rq = Responded 200 [] (Inr \<lparr>candidateText = None, blockReason = None\<rparr>)"

section \<open>Properties\<close>

lemma lit_eq_Nil [simp]: "lit s = [] \<longleftrightarrow> s = []"
  by (simp add: lit_def)

subsection \<open>Facts about the concrete inputs\<close>

lemma hex24_exampleId: "hex24 exampleId"
  by (simp add: hex24_def exampleId_def lit_def isHexDigit_def)

lemma hex24_exampleIdUpper: "hex24 exampleIdUpper"
  by (simp add: hex24_def exampleIdUpper_def lit_def isHexDigit_def)

lemma not_hex24_abc: "\<not> hex24 (lit ''abc'')"
  by (simp add: hex24_def lit_def)

lemma objectId_exampleId: "objectId exampleId = Some exampleId"
  by (simp add: objectId_def hex24_exampleId) (simp add: exampleId_def lit_def lowerHex_def)

lemma objectId_exampleIdUpper: "objectId exampleIdUpper = Some exampleId"
  by (simp add: objectId_def hex24_exampleIdUpper)
     (simp add: exampleId_def exampleIdUpper_def lit_def lowerHex_def)

lemma objectId_otherId: "objectId otherId = Some otherId"
  by (simp add: objectId_def hex24_def otherId_def lit_def isHexDigit_def lowerHex_def)

lemma objectId_abc: "objectId (lit ''abc'') = None"
  by (simp add: objectId_def not_hex24_abc)

lemma exampleId_nonempty: "exampleId \<noteq> []"
  by (simp add: exampleId_def)

lemma exampleIdUpper_differs: "exampleIdUpper \<noteq> exampleId" "exampleIdUpper \<noteq> []"
  by (simp_all add: exampleId_def exampleIdUpper_def lit_def)

lemma otherId_differs: "otherId \<noteq> exampleId"
  by (simp add: exampleId_def otherId_def lit_def)

lemma alice_not_bob: "alice \<noteq> bob"
  by (simp add: alice_def bob_def lit_def)

lemma emptySession_fields:
  "oid emptySession = exampleId" "owner emptySession = alice" "messages emptySession = []"
  "title emptySession = lit ''New Chat''" "shareToken emptySession = None"
  by (simp_all add: emptySession_def)

lemma devEnv_key: "GEMINI_API_KEY devEnv = None"
  by (simp add: devEnv_def)

lemma liveEnv_key: "GEMINI_API_KEY liveEnv = Some (lit ''key'')"
  by (simp add: liveEnv_def)

subsection \<open>Facts about the repository\<close>

lemma findById_cast:
  "cast i = Some k \<Longrightarrow> findById cast db i = Inr (find (\<lambda>s. oid s = k) db)"
  by (simp add: findById_def)

lemma findById_no_cast: "cast i = None \<Longrightarrow> findById cast db i = Inl (castError i)"
  by (simp add: findById_def)

lemma findByIdAndUpdate_cast:
  "cast i = Some k \<Longrightarrow> findByIdAndUpdate cast db i f = Inr (updateFirst db k f)"
  by (simp add: findByIdAndUpdate_def)

lemma findByIdAndDelete_cast:
  "cast i = Some k \<Longrightarrow> findByIdAndDelete cast db i = Inr (deleteFirst db k)"
  by (simp add: findByIdAndDelete_def)

lemma find_oid: "find (\<lambda>s. oid s = i) db = Some s \<Longrightarrow> oid s = i \<and> s \<in> set db"
  by (induction db) (auto split: if_splits)

lemma find_oid_None: "find (\<lambda>s. oid s = i) db = None \<longleftrightarrow> i \<notin> oid ` set db"
  by (induction db) auto

lemma find_after_update:
  "find (\<lambda>s. oid s = i) db = Some s \<Longrightarrow> oid (f s) = i
   \<Longrightarrow> find (\<lambda>s. oid s = i) (updateFirst db i f) = Some (f s)"
  by (induction db) (auto split: if_splits)

lemma update_twice:
  "find (\<lambda>s. oid s = i) db = Some s \<Longrightarrow> oid (f s) = i
   \<Longrightarrow> updateFirst (updateFirst db i f) i g = updateFirst db i (\<lambda>s. g (f s))"
  by (induction db) (auto split: if_splits)

lemma update_cong:
  "find (\<lambda>s. oid s = i) db = Some s \<Longrightarrow> f s = g s
   \<Longrightarrow> updateFirst db i f = updateFirst db i g"
  by (induction db) (auto split: if_splits)

lemma update_absent: "find (\<lambda>s. oid s = i) db = None \<Longrightarrow> updateFirst db i f = db"
  by (induction db) (auto split: if_splits)

lemma pushPair_fields [simp]:
  "oid (pushPair inp reply now s) = oid s"
  "owner (pushPair inp reply now s) = owner s"
  "title (pushPair inp reply now s) = title s"
  "shareToken (pushPair inp reply now s) = shareToken s"
  "lastUpdated (pushPair inp reply now s) = now"
  "messages (pushPair inp reply now s)
     = messages s @ [\<lparr>role = User, content = inp\<rparr>, \<lparr>role = Assistant, content = reply\<rparr>]"
  by (simp_all add: pushPair_def)

subsection \<open>What the relay does once the provider has answered\<close>

text \<open>
  On a reply the pair is appended, \<open>lastUpdated\<close> is refreshed, and the title becomes the
  derived one exactly when the session held no message before.
\<close>

lemma onReply_found:
  assumes "cast i = Some k" and "find (\<lambda>s. oid s = k) db = Some s"
  shows "onReply cast now db i inp reply
           = (json 200 (ReplyBody reply),
              updateFirst db k
                (\<lambda>s. if messages s = [] then (pushPair inp reply now s)\<lparr>title := derivedTitle inp\<rparr>
                      else pushPair inp reply now s))"
proof -
  have i: "oid s = k"
    using find_oid [OF assms(2)] by simp
  have f: "find (\<lambda>s. oid s = k) (updateFirst db k (pushPair inp reply now))
             = Some (pushPair inp reply now s)"
    using assms(2) i by (simp add: find_after_update)
  have u: "updateFirst (updateFirst db k (pushPair inp reply now)) k
            (\<lambda>s. s\<lparr>title := derivedTitle inp\<rparr>)
          = updateFirst db k (\<lambda>s. (pushPair inp reply now s)\<lparr>title := derivedTitle inp\<rparr>)"
    using assms(2) i by (simp add: update_twice)
  have o: "onReply cast now db i inp reply
           = (json 200 (ReplyBody reply),
              if messages s = []
              then updateFirst db k (\<lambda>s. (pushPair inp reply now s)\<lparr>title := derivedTitle inp\<rparr>)
              else updateFirst db k (pushPair inp reply now))"
    using assms(1) by (simp add: onReply_def findByIdAndUpdate_def findById_def f u)
  show ?thesis
  proof (cases "messages s = []")
    case True
    have "updateFirst db k (\<lambda>s. (pushPair inp reply now s)\<lparr>title := derivedTitle inp\<rparr>)
        = updateFirst db k
                (\<lambda>s. if messages s = [] then (pushPair inp reply now s)\<lparr>title := derivedTitle inp\<rparr>
                      else pushPair inp reply now s)"
      by (rule update_cong [OF assms(2)]) (simp add: True)
    then show ?thesis
      unfolding o using True by simp
  next
    case False
    have "updateFirst db k (pushPair inp reply now)
          = updateFirst db k
                (\<lambda>s. if messages s = [] then (pushPair inp reply now s)\<lparr>title := derivedTitle inp\<rparr>
                      else pushPair inp reply now s)"
      by (rule update_cong [OF assms(2)]) (simp add: False)
    then show ?thesis
      unfolding o using False by simp
  qed
qed

lemma onBlocked_cast:
  "cast i = Some k \<Longrightarrow>
   onBlocked cast now db i inp reason
     = (json 200 (ReplyBody (blockNotice reason)),
        updateFirst db k (pushPair inp (blockNotice reason) now))"
  by (simp add: onBlocked_def findByIdAndUpdate_cast)

text \<open>The relay once input, session and owner have been checked and a key is configured.\<close>

lemma relay_fetches:
  assumes "input = Some inp" "inp \<noteq> []" "sessionId \<noteq> []" "isValid sessionId"
    and "cast sessionId = Some k"
    and "find (\<lambda>s. oid s = k) db = Some s" "owner s = userId"
    and "GEMINI_API_KEY e = Some apiKey" "apiKey \<noteq> []"
  shows "relay isValid cast e fetch now db sessionId userId input
           = (fst (onFetched cast e now db sessionId inp (fetch (providerRequest e apiKey inp))),
              snd (onFetched cast e now db sessionId inp (fetch (providerRequest e apiKey inp))),
              [providerRequest e apiKey inp])"
  using assms by (simp add: relay_def findById_def Let_def split: prod.splits)

subsection \<open>Input validation of the relay\<close>

text \<open>
  C3, as the code has it: an utterance that is absent or the empty string is rejected with
  status 400 before anything else happens; the collection is returned as it was and no
  request goes to the provider.
\<close>

theorem relay_empty_input_rejected:
  "\<not> truthy input \<Longrightarrow>
   relay isValid cast e fetch now db sessionId userId input
     = (json 400 (ErrorBody (lit ''Missing input'')), db, [])"
  by (simp add: relay_def)

theorem relay_empty_input_rejected_witness:
  "\<not> truthy (Some []) \<and>
   relay hex24 objectId liveEnv (replies (lit ''Hi'')) 5 [emptySession] exampleId alice (Some [])
     = (json 400 (ErrorBody (lit ''Missing input'')), [emptySession], [])"
  using relay_empty_input_rejected [of "Some []" hex24 objectId liveEnv "replies (lit ''Hi'')" 5
      "[emptySession]" exampleId alice]
  by simp

text \<open>
  C3 as stated fails for an utterance of white space: the single space passes \<open>!input\<close>,
  the provider is called and the exchange is stored.
\<close>

theorem relay_whitespace_counterexample:
  "relay hex24 objectId liveEnv (replies (lit ''Hi'')) 5 [emptySession] exampleId alice
      (Some [0x20])
     = (json 200 (ReplyBody (lit ''Hi'')),
        [emptySession\<lparr>title := [0x20],
                      messages := [\<lparr>role = User, content = [0x20]\<rparr>,
                                   \<lparr>role = Assistant, content = lit ''Hi''\<rparr>],
                      lastUpdated := 5\<rparr>],
        [providerRequest liveEnv (lit ''key'') [0x20]])"
  by (simp add: relay_def findById_def findByIdAndUpdate_def objectId_exampleId hex24_exampleId
      exampleId_nonempty emptySession_fields liveEnv_key onFetched_def replies_def ok_def
      onReply_def pushPair_def derivedTitle_def emptySession_def)

text \<open>
  C10: a session id that is not in object-id format is answered with status 400; the
  collection is untouched, nothing is sent to the provider, and the response does not
  depend on the collection, on the provider or on what the store would make of the id.
  When the utterance and the id are present the message is
  \<open>Invalid session ID format\<close>.
\<close>

theorem relay_invalid_session_id:
  assumes "\<not> isValid sessionId"
  shows "status (fst (relay isValid cast e fetch now db sessionId userId input)) = 400
       \<and> snd (relay isValid cast e fetch now db sessionId userId input) = (db, [])
       \<and> fst (relay isValid cast e fetch now db sessionId userId input)
           = fst (relay isValid cast2 e fetch2 now2 db2 sessionId userId input)
       \<and> (truthy input \<and> sessionId \<noteq> [] \<longrightarrow>
            fst (relay isValid cast e fetch now db sessionId userId input)
              = json 400 (ErrorBody (lit ''Invalid session ID format'')))"
  using assms by (simp add: relay_def json_def)

theorem relay_invalid_session_id_witness:
  "\<not> hex24 (lit ''abc'')
   \<and> relay hex24 objectId liveEnv (replies (lit ''Hi'')) 5 [emptySession] (lit ''abc'') alice
        (Some (lit ''Hello''))
       = (json 400 (ErrorBody (lit ''Invalid session ID format'')), [emptySession], [])"
proof -
  have t: "truthy (Some (lit ''Hello''))" and n: "lit ''abc'' \<noteq> []"
    by simp_all
  from relay_invalid_session_id [where isValid = hex24 and sessionId = "lit ''abc''"
      and cast = objectId and e = liveEnv and fetch = "replies (lit ''Hi'')" and now = 5
      and db = "[emptySession]" and userId = alice and input = "Some (lit ''Hello'')"] t n
  show ?thesis
    using not_hex24_abc by (simp add: prod_eq_iff)
qed

subsection \<open>The echo fallback\<close>

text \<open>
  C1, as the code has it: with no provider key configured, a relay call that passes the
  checks returns the echo reply and stops there. The collection is returned as it was, so
  the session keeps its messages and its title, and no request goes to the provider.
\<close>

theorem relay_echo_leaves_session:
  assumes "input = Some inp" "inp \<noteq> []" "sessionId \<noteq> []" "isValid sessionId"
    and "cast sessionId = Some k"
    and "find (\<lambda>s. oid s = k) db = Some s" "owner s = userId"
    and "\<not> truthy (GEMINI_API_KEY e)"
  shows "relay isValid cast e fetch now db sessionId userId input
           = (json 200 (ReplyBody (echoReply inp)), db, [])"
  using assms by (simp add: relay_def findById_def)

theorem relay_echo_leaves_session_witness:
  "Some (lit ''Hello'') = Some (lit ''Hello'') \<and> lit ''Hello'' \<noteq> [] \<and> exampleId \<noteq> []
   \<and> hex24 exampleId \<and> objectId exampleId = Some exampleId
   \<and> find (\<lambda>s. oid s = exampleId) [emptySession] = Some emptySession
   \<and> owner emptySession = alice \<and> \<not> truthy (GEMINI_API_KEY devEnv)
   \<and> relay hex24 objectId devEnv babbles 9 [emptySession] exampleId alice (Some (lit ''Hello''))
       = (json 200 (ReplyBody (echoReply (lit ''Hello''))), [emptySession], [])"
proof -
  have a: "lit ''Hello'' \<noteq> []" by simp
  have b: "find (\<lambda>s. oid s = exampleId) [emptySession] = Some emptySession"
    by (simp add: emptySession_fields)
  have c: "\<not> truthy (GEMINI_API_KEY devEnv)"
    by (simp add: devEnv_key)
  from relay_echo_leaves_session [where input = "Some (lit ''Hello'')" and inp = "lit ''Hello''"
      and sessionId = exampleId and isValid = hex24 and cast = objectId and k = exampleId
      and db = "[emptySession]" and s = emptySession and userId = alice and e = devEnv
      and fetch = babbles and now = 9]
  show ?thesis
    using a b c exampleId_nonempty hex24_exampleId objectId_exampleId emptySession_fields(2)
    by simp
qed

text \<open>
  C1 as stated fails: after the echo reply the new session still has no message and still
  carries the placeholder title, which is not the title derived from the utterance.
\<close>

theorem relay_echo_counterexample:
  "relay hex24 objectId devEnv (replies (lit ''Hi'')) 5 [emptySession] exampleId alice
      (Some (lit ''Hello''))
     = (json 200 (ReplyBody (echoReply (lit ''Hello''))), [emptySession], [])
   \<and> length (messages emptySession) \<noteq> 2
   \<and> title emptySession \<noteq> derivedTitle (lit ''Hello'')"
proof -
  have "relay hex24 objectId devEnv (replies (lit ''Hi'')) 5 [emptySession] exampleId alice
      (Some (lit ''Hello''))
     = (json 200 (ReplyBody (echoReply (lit ''Hello''))), [emptySession], [])"
    by (simp add: relay_def findById_def objectId_exampleId hex24_exampleId exampleId_nonempty
        emptySession_fields devEnv_key)
  moreover have "title emptySession \<noteq> derivedTitle (lit ''Hello'')"
    by (simp add: emptySession_fields derivedTitle_def lit_def)
  ultimately show ?thesis
    by (simp add: emptySession_fields)
qed

subsection \<open>A blocked prompt\<close>

text \<open>
  What holds of the blocked branch in general: the pair with the block notice is appended,
  \<open>lastUpdated\<close> is refreshed and the notice is returned; no other field is written.
\<close>

lemma relay_blocked:
  assumes "input = Some inp" "inp \<noteq> []" "sessionId \<noteq> []" "isValid sessionId"
    and "cast sessionId = Some k"
    and "find (\<lambda>s. oid s = k) db = Some s" "owner s = userId"
    and "GEMINI_API_KEY e = Some apiKey" "apiKey \<noteq> []"
    and "fetch (providerRequest e apiKey inp) = Responded st errorBody (Inr data)" "ok st"
    and "\<not> truthy (candidateText data)" "blockReason data = Some reason" "reason \<noteq> []"
  shows "relay isValid cast e fetch now db sessionId userId input
           = (json 200 (ReplyBody (blockNotice reason)),
              updateFirst db k (pushPair inp (blockNotice reason) now),
              [providerRequest e apiKey inp])"
proof -
  have "relay isValid cast e fetch now db sessionId userId input
          = (fst (onFetched cast e now db sessionId inp (fetch (providerRequest e apiKey inp))),
             snd (onFetched cast e now db sessionId inp (fetch (providerRequest e apiKey inp))),
             [providerRequest e apiKey inp])"
    using assms(1-9) by (rule relay_fetches)
  then show ?thesis
    using assms(5,10-14) by (simp add: onFetched_def onBlocked_cast)
qed

text \<open>
  C2 at its failing input: the first exchange of a new session is blocked. The pair is
  stored and the notice returned, but the title stays the placeholder, while the same
  exchange answered with a reply sets the title derived from the utterance.
\<close>

theorem relay_blocked_first_exchange_keeps_title:
  "relay hex24 objectId liveEnv (blocks (lit ''SAFETY'')) 5 [emptySession] exampleId alice
      (Some (lit ''Hello''))
     = (json 200 (ReplyBody (lit ''Your prompt was blocked due to: SAFETY.'')),
        [emptySession\<lparr>title := lit ''New Chat'',
                      messages := [\<lparr>role = User, content = lit ''Hello''\<rparr>,
                                   \<lparr>role = Assistant,
                                    content = lit ''Your prompt was blocked due to: SAFETY.''\<rparr>],
                      lastUpdated := 5\<rparr>],
        [providerRequest liveEnv (lit ''key'') (lit ''Hello'')])
   \<and> fst (snd (relay hex24 objectId liveEnv (replies (lit ''Hi'')) 5 [emptySession] exampleId
                  alice (Some (lit ''Hello''))))
     = [emptySession\<lparr>title := lit ''Hello'',
                      messages := [\<lparr>role = User, content = lit ''Hello''\<rparr>,
                                   \<lparr>role = Assistant, content = lit ''Hi''\<rparr>],
                      lastUpdated := 5\<rparr>]"
proof -
  have c: "findById objectId db exampleId = Inr (find (\<lambda>s. oid s = exampleId) db)"
    "findByIdAndUpdate objectId db exampleId f = Inr (updateFirst db exampleId f)" for db f
    by (simp_all add: findById_def findByIdAndUpdate_def objectId_exampleId)
  show ?thesis
    by (simp add: relay_def c hex24_exampleId exampleId_nonempty emptySession_fields
      liveEnv_key onFetched_def blocks_def replies_def ok_def onReply_def onBlocked_def
      pushPair_def derivedTitle_def blockNotice_def emptySession_def lit_def)
qed

subsection \<open>Title derivation\<close>

text \<open>The derived title is the utterance cut at 50 code units, with three dots added
  exactly when something was cut.\<close>

lemma derivedTitle_short: "length inp \<le> 50 \<Longrightarrow> derivedTitle inp = inp"
  by (simp add: derivedTitle_def)

lemma derivedTitle_long: "length inp > 50 \<Longrightarrow> derivedTitle inp = take 50 inp @ lit ''...''"
  by (simp add: derivedTitle_def)

text \<open>
  On the reply branch the title is rewritten when the append leaves two messages and is
  left alone otherwise.
\<close>

lemma onReply_title:
  assumes "cast i = Some k" and "find (\<lambda>s. oid s = k) db = Some s"
  shows "find (\<lambda>s. oid s = k) (snd (onReply cast now db i inp reply))
           = Some (s\<lparr>title := (if length (messages s) + 2 = 2 then derivedTitle inp else title s),
                     messages := messages s @ [\<lparr>role = User, content = inp\<rparr>,
                                               \<lparr>role = Assistant, content = reply\<rparr>],
                     lastUpdated := now\<rparr>)"
proof -
  have i: "oid s = k"
    using find_oid [OF assms(2)] by simp
  have "onReply cast now db i inp reply
           = (json 200 (ReplyBody reply),
              updateFirst db k
                (\<lambda>s. if messages s = [] then (pushPair inp reply now s)\<lparr>title := derivedTitle inp\<rparr>
                      else pushPair inp reply now s))"
    using assms by (rule onReply_found)
  then show ?thesis
    using assms(2) i by (simp add: find_after_update pushPair_def)
qed

text \<open>
  C5 at its failing input: an append on the blocked branch leaves the session with exactly
  two messages, and the title is not derived.
\<close>

theorem onBlocked_two_messages_title_not_derived:
  "find (\<lambda>s. oid s = exampleId)
      (snd (onBlocked objectId 7 [emptySession] exampleId (lit ''Tell me a secret'') (lit ''OTHER'')))
     = Some (emptySession\<lparr>messages := [\<lparr>role = User, content = lit ''Tell me a secret''\<rparr>,
                                       \<lparr>role = Assistant,
                                        content = blockNotice (lit ''OTHER'')\<rparr>],
                           lastUpdated := 7\<rparr>)
   \<and> length (messages (emptySession\<lparr>messages := [\<lparr>role = User, content = lit ''Tell me a secret''\<rparr>,
                                       \<lparr>role = Assistant,
                                        content = blockNotice (lit ''OTHER'')\<rparr>],
                           lastUpdated := 7\<rparr>)) = 2
   \<and> title emptySession = lit ''New Chat''
   \<and> derivedTitle (lit ''Tell me a secret'') = lit ''Tell me a secret''
   \<and> lit ''New Chat'' \<noteq> lit ''Tell me a secret''"
proof -
  have "onBlocked objectId 7 [emptySession] exampleId (lit ''Tell me a secret'') (lit ''OTHER'')
          = (json 200 (ReplyBody (blockNotice (lit ''OTHER''))),
             [emptySession\<lparr>messages := [\<lparr>role = User, content = lit ''Tell me a secret''\<rparr>,
                                       \<lparr>role = Assistant,
                                        content = blockNotice (lit ''OTHER'')\<rparr>],
                           lastUpdated := 7\<rparr>])"
    by (simp add: onBlocked_def findByIdAndUpdate_def objectId_exampleId emptySession_fields
        pushPair_def)
  moreover have "derivedTitle (lit ''Tell me a secret'') = lit ''Tell me a secret''"
    "lit ''New Chat'' \<noteq> lit ''Tell me a secret''"
    by (simp_all add: derivedTitle_def lit_def)
  ultimately show ?thesis
    by (simp add: emptySession_fields)
qed

subsection \<open>Provider failures\<close>

text \<open>The hint is chosen by the status code alone, except for 400, where the body is
  searched; any other status has no hint.\<close>

lemma hint_cases:
  "hint e 404 errorBody \<noteq> None"
  "hint e 403 errorBody \<noteq> None"
  "hint e 400 errorBody \<noteq> None \<longleftrightarrow> includes_str errorBody (lit ''API_KEY_INVALID'')"
  "st \<notin> {400, 403, 404} \<Longrightarrow> hint e st errorBody = None"
  by (simp_all add: hint_def)

lemma includes_str_sublist: "includes_str xs p \<longleftrightarrow> sublist p xs"
  by (induction xs) (auto simp: sublist_Cons_right)

text \<open>A request that the provider never answers ends in the \<open>catch\<close>: 500, and the
  collection as it was.\<close>

lemma relay_fetch_rejected:
  assumes "input = Some inp" "inp \<noteq> []" "sessionId \<noteq> []" "isValid sessionId"
    and "cast sessionId = Some k"
    and "find (\<lambda>s. oid s = k) db = Some s" "owner s = userId"
    and "GEMINI_API_KEY e = Some apiKey" "apiKey \<noteq> []"
    and "fetch (providerRequest e apiKey inp) = Rejected err"
  shows "relay isValid cast e fetch now db sessionId userId input
           = (json 500 (ErrorBody err), db, [providerRequest e apiKey inp])"
proof -
  have "relay isValid cast e fetch now db sessionId userId input
          = (fst (onFetched cast e now db sessionId inp (fetch (providerRequest e apiKey inp))),
             snd (onFetched cast e now db sessionId inp (fetch (providerRequest e apiKey inp))),
             [providerRequest e apiKey inp])"
    using assms(1-9) by (rule relay_fetches)
  then show ?thesis
    using assms(10) by (simp add: onFetched_def)
qed

text \<open>
  C4: when the provider answers with a status that is not a success, or with a success
  that carries neither text nor a block reason, or with a success whose body cannot be
  read as JSON, the relay answers with an error and returns the collection as it was, so
  no session gains a message. The error for a failing status is a 502 that carries the
  upstream status, the upstream body and the hint, if the status has one; the error for
  an answer without text or block reason is a 502 that carries the parsed answer; the
  error for an unreadable body is the 500 of the \<open>catch\<close>, with the text of the
  exception.
\<close>

theorem relay_provider_failure_appends_nothing:
  assumes "input = Some inp" "inp \<noteq> []" "sessionId \<noteq> []" "isValid sessionId"
    and "cast sessionId = Some k"
    and "find (\<lambda>s. oid s = k) db = Some s" "owner s = userId"
    and "GEMINI_API_KEY e = Some apiKey" "apiKey \<noteq> []"
    and "fetch (providerRequest e apiKey inp) = Responded st errorBody parsed"
  shows "(\<not> ok st \<longrightarrow>
            relay isValid cast e fetch now db sessionId userId input
              = (json 502 (UpstreamBody st errorBody (hint e st errorBody)), db,
                 [providerRequest e apiKey inp]))
       \<and> (\<forall>data. ok st \<and> parsed = Inr data \<and> \<not> truthy (candidateText data)
                   \<and> \<not> truthy (blockReason data) \<longrightarrow>
            relay isValid cast e fetch now db sessionId userId input
              = (json 502 (MalformedBody data), db, [providerRequest e apiKey inp]))
       \<and> (\<forall>err. ok st \<and> parsed = Inl err \<longrightarrow>
            relay isValid cast e fetch now db sessionId userId input
              = (json 500 (ErrorBody err), db, [providerRequest e apiKey inp]))"
proof -
  have "relay isValid cast e fetch now db sessionId userId input
          = (fst (onFetched cast e now db sessionId inp (fetch (providerRequest e apiKey inp))),
             snd (onFetched cast e now db sessionId inp (fetch (providerRequest e apiKey inp))),
             [providerRequest e apiKey inp])"
    using assms(1-9) by (rule relay_fetches)
  then show ?thesis
    using assms(10) by (simp add: onFetched_def)
qed

theorem relay_provider_failure_appends_nothing_witness:
  "relay hex24 objectId liveEnv (refuses 403 (lit ''denied'')) 5 [emptySession] exampleId alice
      (Some (lit ''Hello''))
     = (json 502 (UpstreamBody 403 (lit ''denied'')
          (Some (lit ''403 Forbidden. Your API key may be invalid, or billing/quota limits may be reached.''))),
        [emptySession], [providerRequest liveEnv (lit ''key'') (lit ''Hello'')])
   \<and> relay hex24 objectId liveEnv babbles 5 [emptySession] exampleId alice (Some (lit ''Hello''))
     = (json 502 (MalformedBody \<lparr>candidateText = None, blockReason = None\<rparr>),
        [emptySession], [providerRequest liveEnv (lit ''key'') (lit ''Hello'')])
   \<and> relay hex24 objectId liveEnv garbles 5 [emptySession] exampleId alice (Some (lit ''Hello''))
     = (json 500 (ErrorBody (lit ''FetchError: invalid json response body'')),
        [emptySession], [providerRequest liveEnv (lit ''key'') (lit ''Hello'')])"
proof -
  have a: "lit ''Hello'' \<noteq> []" and k: "lit ''key'' \<noteq> []"
    by simp_all
  have b: "find (\<lambda>s. oid s = exampleId) [emptySession] = Some emptySession"
    by (simp add: emptySession_fields)
  have r: "refuses 403 (lit ''denied'') (providerRequest liveEnv (lit ''key'') (lit ''Hello''))
             = Responded 403 (lit ''denied'') (Inl [])"
    by (simp add: refuses_def)
  have m: "babbles (providerRequest liveEnv (lit ''key'') (lit ''Hello''))
             = Responded 200 [] (Inr \<lparr>candidateText = None, blockReason = None\<rparr>)"
    by (simp add: babbles_def)
  have g: "garbles (providerRequest liveEnv (lit ''key'') (lit ''Hello''))
             = Responded 200 (lit ''<html>'') (Inl (lit ''FetchError: invalid json response body''))"
    by (simp add: garbles_def)
  from relay_provider_failure_appends_nothing [where input = "Some (lit ''Hello'')"
      and inp = "lit ''Hello''" and sessionId = exampleId and isValid = hex24 and cast = objectId
      and k = exampleId and db = "[emptySession]" and s = emptySession and userId = alice
      and e = liveEnv and apiKey = "lit ''key''" and fetch = "refuses 403 (lit ''denied'')"
      and now = 5,
      OF refl a exampleId_nonempty hex24_exampleId objectId_exampleId b emptySession_fields(2)
        liveEnv_key k r]
  have 1: "relay hex24 objectId liveEnv (refuses 403 (lit ''denied'')) 5 [emptySession] exampleId
      alice (Some (lit ''Hello''))
     = (json 502 (UpstreamBody 403 (lit ''denied'')
          (Some (lit ''403 Forbidden. Your API key may be invalid, or billing/quota limits may be reached.''))),
        [emptySession], [providerRequest liveEnv (lit ''key'') (lit ''Hello'')])"
    by (simp add: ok_def hint_def)
  from relay_provider_failure_appends_nothing [where input = "Some (lit ''Hello'')"
      and inp = "lit ''Hello''" and sessionId = exampleId and isValid = hex24 and cast = objectId
      and k = exampleId and db = "[emptySession]" and s = emptySession and userId = alice
      and e = liveEnv and apiKey = "lit ''key''" and fetch = babbles and now = 5,
      OF refl a exampleId_nonempty hex24_exampleId objectId_exampleId b emptySession_fields(2)
        liveEnv_key k m]
  have 2: "relay hex24 objectId liveEnv babbles 5 [emptySession] exampleId alice
      (Some (lit ''Hello''))
     = (json 502 (MalformedBody \<lparr>candidateText = None, blockReason = None\<rparr>),
        [emptySession], [providerRequest liveEnv (lit ''key'') (lit ''Hello'')])"
    by (simp add: ok_def)
  from relay_provider_failure_appends_nothing [where input = "Some (lit ''Hello'')"
      and inp = "lit ''Hello''" and sessionId = exampleId and isValid = hex24 and cast = objectId
      and k = exampleId and db = "[emptySession]" and s = emptySession and userId = alice
      and e = liveEnv and apiKey = "lit ''key''" and fetch = garbles and now = 5,
      OF refl a exampleId_nonempty hex24_exampleId objectId_exampleId b emptySession_fields(2)
        liveEnv_key k g]
  have 3: "relay hex24 objectId liveEnv garbles 5 [emptySession] exampleId alice
      (Some (lit ''Hello''))
     = (json 500 (ErrorBody (lit ''FetchError: invalid json response body'')),
        [emptySession], [providerRequest liveEnv (lit ''key'') (lit ''Hello'')])"
    by (simp add: ok_def)
  from 1 2 3 show ?thesis by blast
qed

subsection \<open>Reading a session through its share token\<close>

lemma find_token_None:
  "find (\<lambda>s. shareToken s = Some t) db = None \<longleftrightarrow> (\<forall>s\<in>set db. shareToken s \<noteq> Some t)"
  by (induction db) auto

lemma find_token_Some:
  "find (\<lambda>s. shareToken s = Some t) db = Some s \<Longrightarrow> s \<in> set db \<and> shareToken s = Some t"
  by (induction db) (auto split: if_splits)

text \<open>The session route answers 401 to a request without an \<open>Authorization\<close> header.\<close>

lemma route_get_session_needs_identity:
  "route_get_session verify cast db None sessionId
     = json 401 (ErrorBody (lit ''Missing or invalid Authorization header''))"
  by (simp add: route_get_session_def authMiddleware_def)

text \<open>
  C7, as the code has it: the share route ignores the \<open>Authorization\<close> header. A token
  that no session carries is answered with 404; a token that some session carries is
  answered with 200 and the whole document of a session that carries it, owner included.
\<close>

theorem getByShareToken_returns_document:
  "route_get_share verify db authorization token = getByShareToken db token
   \<and> ((\<forall>s\<in>set db. shareToken s \<noteq> Some token) \<longrightarrow>
         getByShareToken db token = json 404 (ErrorBody (lit ''Shared chat not found'')))
   \<and> ((\<exists>s\<in>set db. shareToken s = Some token) \<longrightarrow>
         (\<exists>s\<in>set db. shareToken s = Some token
            \<and> getByShareToken db token = json 200 (SessionBody s)
            \<and> disclosedOwner (body (getByShareToken db token)) = Some (owner s)))"
proof (intro conjI impI)
  show "route_get_share verify db authorization token = getByShareToken db token"
    by (simp add: route_get_share_def)
next
  assume "\<forall>s\<in>set db. shareToken s \<noteq> Some token"
  then have "find (\<lambda>s. shareToken s = Some token) db = None"
    by (simp add: find_token_None)
  then show "getByShareToken db token = json 404 (ErrorBody (lit ''Shared chat not found''))"
    by (simp add: getByShareToken_def findOneByShareToken_def)
next
  assume "\<exists>s\<in>set db. shareToken s = Some token"
  then have "find (\<lambda>s. shareToken s = Some token) db \<noteq> None"
    by (simp add: find_token_None)
  then obtain s where s: "find (\<lambda>s. shareToken s = Some token) db = Some s"
    by blast
  have "getByShareToken db token = json 200 (SessionBody s)"
    using s by (simp add: getByShareToken_def findOneByShareToken_def)
  then show "\<exists>s\<in>set db. shareToken s = Some token
            \<and> getByShareToken db token = json 200 (SessionBody s)
            \<and> disclosedOwner (body (getByShareToken db token)) = Some (owner s)"
    using find_token_Some [OF s] by (auto simp: json_def)
qed

theorem getByShareToken_returns_document_witness:
  "shareToken sharedSession \<noteq> Some (lit ''ff'')
   \<and> getByShareToken [sharedSession] (lit ''ff'') = json 404 (ErrorBody (lit ''Shared chat not found''))
   \<and> shareToken sharedSession = Some (lit ''0a'')
   \<and> getByShareToken [sharedSession] (lit ''0a'') = json 200 (SessionBody sharedSession)
   \<and> route_get_share rejectAll [sharedSession] None (lit ''0a'')
       = json 200 (SessionBody sharedSession)"
proof -
  have n: "shareToken sharedSession \<noteq> Some (lit ''ff'')"
    by (simp add: sharedSession_def lit_def)
  have y: "shareToken sharedSession = Some (lit ''0a'')"
    by (simp add: sharedSession_def)
  from getByShareToken_returns_document [of rejectAll "[sharedSession]" None "lit ''ff''"] n
  have 1: "getByShareToken [sharedSession] (lit ''ff'')
             = json 404 (ErrorBody (lit ''Shared chat not found''))"
    by simp
  from getByShareToken_returns_document [of rejectAll "[sharedSession]" None "lit ''0a''"] y
  have 2: "getByShareToken [sharedSession] (lit ''0a'') = json 200 (SessionBody sharedSession)"
    and 3: "route_get_share rejectAll [sharedSession] None (lit ''0a'')
              = json 200 (SessionBody sharedSession)"
    by auto
  from n 1 y 2 3 show ?thesis by blast
qed

text \<open>
  C7 as stated fails: the answer to a reader without identity is the session document,
  and it shows the owner of the session.
\<close>

theorem getByShareToken_discloses_owner_counterexample:
  "route_get_share rejectAll [sharedSession] None (lit ''0a'')
     = json 200 (SessionBody sharedSession)
   \<and> disclosedOwner (body (route_get_share rejectAll [sharedSession] None (lit ''0a'')))
       = Some alice
   \<and> SessionBody sharedSession
       = SessionBody \<lparr>oid = exampleId, title = lit ''New Chat'', owner = alice, messages = [],
                      shareToken = Some (lit ''0a''), lastUpdated = 0\<rparr>"
  by (simp add: route_get_share_def getByShareToken_def findOneByShareToken_def
      sharedSession_def emptySession_def json_def)

subsection \<open>Fetching and deleting a session\<close>

lemma delete_removes:
  "distinct (map oid db) \<Longrightarrow> i \<notin> oid ` set (deleteFirst db i)"
  by (induction db) auto

lemma delete_subset: "set (deleteFirst db i) \<subseteq> set db"
  by (induction db) auto

lemma delete_distinct: "distinct (map oid db) \<Longrightarrow> distinct (map oid (deleteFirst db i))"
proof (induction db)
  case Nil
  then show ?case by simp
next
  case (Cons a db)
  then show ?case
    using delete_subset [of db i] by auto
qed

text \<open>
  C8, as the code has it, for a session id that the store can cast to an object id,
  whatever its spelling: when no session has that object id, both routes answer 404; a
  session of another owner gives 403 and stays; the owner gets the document, or deletes
  it, after which the object id is gone and a second delete and a fetch give 404. The
  ids of a collection are distinct, as the store keeps them.
\<close>

theorem getSession_deleteSession_valid_id:
  assumes "cast sessionId = Some k"
  shows "(k \<notin> oid ` set db \<longrightarrow>
            getSession cast db sessionId userId
              = json 404 (ErrorBody (lit ''Chat session not found''))
          \<and> deleteSession cast db sessionId userId
              = (json 404 (ErrorBody (lit ''Chat session not found'')), db))
       \<and> (\<forall>s. find (\<lambda>s. oid s = k) db = Some s \<and> owner s \<noteq> userId \<longrightarrow>
            getSession cast db sessionId userId = json 403 (ErrorBody (lit ''Forbidden''))
          \<and> deleteSession cast db sessionId userId
              = (json 403 (ErrorBody (lit ''Forbidden'')), db))
       \<and> (\<forall>s. find (\<lambda>s. oid s = k) db = Some s \<and> owner s = userId
               \<and> distinct (map oid db) \<longrightarrow>
            getSession cast db sessionId userId = json 200 (SessionBody s)
          \<and> deleteSession cast db sessionId userId
              = (json 200 (MessageBody (lit ''Chat session deleted successfully'')),
                 deleteFirst db k)
          \<and> k \<notin> oid ` set (deleteFirst db k)
          \<and> deleteSession cast (deleteFirst db k) sessionId userId
              = (json 404 (ErrorBody (lit ''Chat session not found'')), deleteFirst db k)
          \<and> getSession cast (deleteFirst db k) sessionId userId
              = json 404 (ErrorBody (lit ''Chat session not found'')))"
proof (intro conjI allI impI)
  assume "k \<notin> oid ` set db"
  then have n: "find (\<lambda>s. oid s = k) db = None"
    by (simp add: find_oid_None)
  show "getSession cast db sessionId userId
          = json 404 (ErrorBody (lit ''Chat session not found''))"
    using assms n by (simp add: getSession_def findById_def)
  show "deleteSession cast db sessionId userId
          = (json 404 (ErrorBody (lit ''Chat session not found'')), db)"
    using assms n by (simp add: deleteSession_def findById_def)
next
  fix s
  assume a: "find (\<lambda>s. oid s = k) db = Some s \<and> owner s \<noteq> userId"
  show "getSession cast db sessionId userId = json 403 (ErrorBody (lit ''Forbidden''))"
    using assms a by (simp add: getSession_def findById_def)
  show "deleteSession cast db sessionId userId = (json 403 (ErrorBody (lit ''Forbidden'')), db)"
    using assms a by (simp add: deleteSession_def findById_def)
next
  fix s
  assume a: "find (\<lambda>s. oid s = k) db = Some s \<and> owner s = userId \<and> distinct (map oid db)"
  have gone: "k \<notin> oid ` set (deleteFirst db k)"
    using a by (simp add: delete_removes)
  then have n: "find (\<lambda>s. oid s = k) (deleteFirst db k) = None"
    by (simp add: find_oid_None)
  show "getSession cast db sessionId userId = json 200 (SessionBody s)"
    using assms a by (simp add: getSession_def findById_def)
  show "deleteSession cast db sessionId userId
          = (json 200 (MessageBody (lit ''Chat session deleted successfully'')),
             deleteFirst db k)"
    using assms a by (simp add: deleteSession_def findById_def findByIdAndDelete_def)
  show "k \<notin> oid ` set (deleteFirst db k)"
    by (rule gone)
  show "deleteSession cast (deleteFirst db k) sessionId userId
          = (json 404 (ErrorBody (lit ''Chat session not found'')), deleteFirst db k)"
    using assms n by (simp add: deleteSession_def findById_def)
  show "getSession cast (deleteFirst db k) sessionId userId
          = json 404 (ErrorBody (lit ''Chat session not found''))"
    using assms n by (simp add: getSession_def findById_def)
qed

theorem getSession_deleteSession_valid_id_witness:
  "objectId otherId = Some otherId \<and> otherId \<notin> oid ` set [emptySession]
   \<and> getSession objectId [emptySession] otherId alice
       = json 404 (ErrorBody (lit ''Chat session not found''))
   \<and> objectId exampleIdUpper = Some exampleId
   \<and> find (\<lambda>s. oid s = exampleId) [emptySession] = Some emptySession
   \<and> owner emptySession \<noteq> bob
   \<and> getSession objectId [emptySession] exampleIdUpper bob
       = json 403 (ErrorBody (lit ''Forbidden''))
   \<and> deleteSession objectId [emptySession] exampleIdUpper bob
       = (json 403 (ErrorBody (lit ''Forbidden'')), [emptySession])
   \<and> owner emptySession = alice \<and> distinct (map oid [emptySession])
   \<and> getSession objectId [emptySession] exampleIdUpper alice
       = json 200 (SessionBody emptySession)
   \<and> deleteSession objectId [emptySession] exampleIdUpper alice
       = (json 200 (MessageBody (lit ''Chat session deleted successfully'')), [])
   \<and> deleteSession objectId [] exampleIdUpper alice
       = (json 404 (ErrorBody (lit ''Chat session not found'')), [])"
proof -
  have n: "otherId \<notin> oid ` set [emptySession]"
    by (simp add: emptySession_fields otherId_differs)
  have f: "find (\<lambda>s. oid s = exampleId) [emptySession] = Some emptySession"
    by (simp add: emptySession_fields)
  have b: "owner emptySession \<noteq> bob"
    by (simp add: emptySession_fields alice_not_bob)
  have di: "distinct (map oid [emptySession])"
    by simp
  from getSession_deleteSession_valid_id [where cast = objectId and sessionId = otherId
      and k = otherId and db = "[emptySession]" and userId = alice] objectId_otherId n
  have 1: "getSession objectId [emptySession] otherId alice
             = json 404 (ErrorBody (lit ''Chat session not found''))"
    by blast
  from getSession_deleteSession_valid_id [where cast = objectId and sessionId = exampleIdUpper
      and k = exampleId and db = "[emptySession]" and userId = bob] objectId_exampleIdUpper f b
  have 2: "getSession objectId [emptySession] exampleIdUpper bob
             = json 403 (ErrorBody (lit ''Forbidden''))
         \<and> deleteSession objectId [emptySession] exampleIdUpper bob
             = (json 403 (ErrorBody (lit ''Forbidden'')), [emptySession])"
    by blast
  from getSession_deleteSession_valid_id [where cast = objectId and sessionId = exampleIdUpper
      and k = exampleId and db = "[emptySession]" and userId = alice] objectId_exampleIdUpper f
    emptySession_fields(2)
  have 3: "getSession objectId [emptySession] exampleIdUpper alice
             = json 200 (SessionBody emptySession)
         \<and> deleteSession objectId [emptySession] exampleIdUpper alice
             = (json 200 (MessageBody (lit ''Chat session deleted successfully'')), [])
         \<and> deleteSession objectId [] exampleIdUpper alice
             = (json 404 (ErrorBody (lit ''Chat session not found'')), [])"
    by (simp add: emptySession_fields)
  from objectId_otherId n 1 objectId_exampleIdUpper f b 2 emptySession_fields(2) di 3
  show ?thesis
    by blast
qed

text \<open>
  C8 as stated fails for an id that is no object id: no session has the id \<open>abc\<close>, and
  the two routes answer 500, not 404, because the lookup throws.
\<close>

theorem getSession_malformed_id_counterexample:
  "lit ''abc'' \<notin> oid ` set [emptySession]
   \<and> getSession objectId [emptySession] (lit ''abc'') alice
       = json 500 (ErrorBody (lit ''Error fetching chat session''))
   \<and> deleteSession objectId [emptySession] (lit ''abc'') alice
       = (json 500 (ErrorBody (lit ''Error deleting chat session'')), [emptySession])"
proof -
  have "lit ''abc'' \<notin> oid ` set [emptySession]"
    by (simp add: emptySession_fields exampleId_def lit_def)
  then show ?thesis
    by (simp add: getSession_def deleteSession_def findById_def objectId_abc)
qed

subsection \<open>Share tokens\<close>






lemma update_set:
  "find (\<lambda>s. oid s = i) db = Some s \<Longrightarrow> set (updateFirst db i f) \<subseteq> insert (f s) (set db)"
  by (induction db) (auto split: if_splits)












subsection \<open>Invariants of the message history\<close>

text \<open>What a relay call can do to the collection: nothing, or one update of the session
  addressed that appends the utterance and the reply it returns with status 200.\<close>

lemma onFetched_cases:
  assumes "cast i = Some k" and "find (\<lambda>s. oid s = k) db = Some s"
  shows "snd (onFetched cast e now db i inp r) = db
       \<or> (\<exists>reply g. onFetched cast e now db i inp r
                       = (json 200 (ReplyBody reply), updateFirst db k g)
             \<and> (\<forall>s. oid (g s) = oid s
                    \<and> messages (g s) = messages s @ [\<lparr>role = User, content = inp\<rparr>,
                                                       \<lparr>role = Assistant, content = reply\<rparr>]))"
proof (cases r)
  case (Rejected err)
  then show ?thesis by (simp add: onFetched_def)
next
  case (Responded st errorBody parsed)
  show ?thesis
  proof (cases parsed)
    case (Inl err)
    then show ?thesis using Responded by (simp add: onFetched_def)
  next
    case (Inr data)
    let ?g = "\<lambda>reply s. if messages s = []
                then (pushPair inp reply now s)\<lparr>title := derivedTitle inp\<rparr>
                else pushPair inp reply now s"
    have g: "\<forall>s. oid (?g reply s) = oid s
                \<and> messages (?g reply s) = messages s @ [\<lparr>role = User, content = inp\<rparr>,
                                                          \<lparr>role = Assistant, content = reply\<rparr>]"
      for reply
      by simp
    have p: "\<forall>s. oid (pushPair inp reply now s) = oid s
                \<and> messages (pushPair inp reply now s)
                    = messages s @ [\<lparr>role = User, content = inp\<rparr>,
                                    \<lparr>role = Assistant, content = reply\<rparr>]"
      for reply
      by simp
    have orf: "onReply cast now db i inp reply
                 = (json 200 (ReplyBody reply), updateFirst db k (?g reply))" for reply
      using assms by (rule onReply_found)
    consider (bad) "\<not> ok st"
      | (reply) "ok st" "truthy (candidateText data)"
      | (blocked) "ok st" "\<not> truthy (candidateText data)" "truthy (blockReason data)"
      | (none) "ok st" "\<not> truthy (candidateText data)" "\<not> truthy (blockReason data)"
      by blast
    then show ?thesis
    proof cases
      case bad
      then show ?thesis using Responded by (simp add: onFetched_def)
    next
      case reply
      have "onFetched cast e now db i inp r
              = (json 200 (ReplyBody (orElse (candidateText data) [])),
                 updateFirst db k (?g (orElse (candidateText data) [])))"
        using Responded Inr reply by (simp add: onFetched_def orf)
      then show ?thesis
        using g [of "orElse (candidateText data) []"] by blast
    next
      case blocked
      have "onFetched cast e now db i inp r
              = (json 200 (ReplyBody (blockNotice (orElse (blockReason data) []))),
                 updateFirst db k
                   (pushPair inp (blockNotice (orElse (blockReason data) [])) now))"
        using Responded Inr blocked assms(1) by (simp add: onFetched_def onBlocked_cast)
      then show ?thesis
        using p [of "blockNotice (orElse (blockReason data) [])"] by blast
    next
      case none
      then show ?thesis using Responded Inr by (simp add: onFetched_def)
    qed
  qed
qed

lemma relay_reaches_provider:
  "relay isValid cast e fetch now db sessionId userId input
     = (fst (relay isValid cast e fetch now db sessionId userId input), db, [])
   \<or> (\<exists>inp k s apiKey. input = Some inp \<and> inp \<noteq> [] \<and> sessionId \<noteq> [] \<and> isValid sessionId
         \<and> cast sessionId = Some k
         \<and> find (\<lambda>s. oid s = k) db = Some s \<and> owner s = userId
         \<and> GEMINI_API_KEY e = Some apiKey \<and> apiKey \<noteq> [])"
  by (cases input; cases "GEMINI_API_KEY e"; cases "cast sessionId")
     (auto simp: relay_def findById_def Let_def split: prod.splits option.splits)

lemma relay_cases:
  "fst (snd (relay isValid cast e fetch now db sessionId userId input)) = db
   \<or> (\<exists>inp reply k g. input = Some inp \<and> cast sessionId = Some k
         \<and> fst (relay isValid cast e fetch now db sessionId userId input)
             = json 200 (ReplyBody reply)
         \<and> fst (snd (relay isValid cast e fetch now db sessionId userId input))
             = updateFirst db k g
         \<and> (\<forall>s. oid (g s) = oid s
                \<and> messages (g s) = messages s @ [\<lparr>role = User, content = inp\<rparr>,
                                                   \<lparr>role = Assistant, content = reply\<rparr>]))"
proof -
  consider (stop) "relay isValid cast e fetch now db sessionId userId input
                     = (fst (relay isValid cast e fetch now db sessionId userId input), db, [])"
    | (go) inp k s apiKey where "input = Some inp" "inp \<noteq> []" "sessionId \<noteq> []"
         "isValid sessionId" "cast sessionId = Some k"
         "find (\<lambda>s. oid s = k) db = Some s" "owner s = userId"
         "GEMINI_API_KEY e = Some apiKey" "apiKey \<noteq> []"
    using relay_reaches_provider [of isValid cast e fetch now db sessionId userId input] by blast
  then show ?thesis
  proof cases
    case stop
    then have "fst (snd (relay isValid cast e fetch now db sessionId userId input)) = db"
      by (metis fst_conv snd_conv)
    then show ?thesis by simp
  next
    case go
    let ?r = "onFetched cast e now db sessionId inp (fetch (providerRequest e apiKey inp))"
    have "relay isValid cast e fetch now db sessionId userId input
            = (fst ?r, snd ?r, [providerRequest e apiKey inp])"
      using go by (rule relay_fetches)
    then have r: "fst (relay isValid cast e fetch now db sessionId userId input) = fst ?r"
      "fst (snd (relay isValid cast e fetch now db sessionId userId input)) = snd ?r"
      by simp_all
    have "snd ?r = db
       \<or> (\<exists>reply g. ?r = (json 200 (ReplyBody reply), updateFirst db k g)
             \<and> (\<forall>s. oid (g s) = oid s
                    \<and> messages (g s) = messages s @ [\<lparr>role = User, content = inp\<rparr>,
                                                       \<lparr>role = Assistant, content = reply\<rparr>]))"
      using go(5,6) by (rule onFetched_cases)
    then show ?thesis
    proof
      assume "snd ?r = db"
      then show ?thesis using r by simp
    next
      assume "\<exists>reply g. ?r = (json 200 (ReplyBody reply), updateFirst db k g)
             \<and> (\<forall>s. oid (g s) = oid s
                    \<and> messages (g s) = messages s @ [\<lparr>role = User, content = inp\<rparr>,
                                                       \<lparr>role = Assistant, content = reply\<rparr>])"
      then obtain reply g where "?r = (json 200 (ReplyBody reply), updateFirst db k g)"
        and "\<forall>s. oid (g s) = oid s
                    \<and> messages (g s) = messages s @ [\<lparr>role = User, content = inp\<rparr>,
                                                       \<lparr>role = Assistant, content = reply\<rparr>]"
        by blast
      then show ?thesis
        using r go(1,5) by auto
    qed
  qed
qed

text \<open>A relay call that changes the collection answers 200 with a reply.\<close>

lemma relay_changes_only_on_success:
  "fst (snd (relay isValid cast e fetch now db sessionId userId input)) \<noteq> db
   \<Longrightarrow> \<exists>reply. fst (relay isValid cast e fetch now db sessionId userId input)
                  = json 200 (ReplyBody reply)"
  using relay_cases [of isValid cast e fetch now db sessionId userId input] by auto

lemma update_oids:
  "\<forall>s. oid (g s) = oid s \<Longrightarrow> map oid (updateFirst db i g) = map oid db"
  by (induction db) auto

lemma update_even:
  "\<forall>s\<in>set db. even (length (messages s))
   \<Longrightarrow> \<forall>s. even (length (messages s)) \<longrightarrow> even (length (messages (g s)))
   \<Longrightarrow> \<forall>s\<in>set (updateFirst db i g). even (length (messages s))"
  by (induction db) auto

lemma find_update_cases:
  "\<forall>s. oid (g s) = oid s \<Longrightarrow> find (\<lambda>s. oid s = j) db = Some s
   \<Longrightarrow> find (\<lambda>s. oid s = j) (updateFirst db i g) = Some (if i = j then g s else s)"
  by (induction db) (auto split: if_splits)

lemma find_delete_other:
  "i \<noteq> j \<Longrightarrow> find (\<lambda>s. oid s = j) (deleteFirst db i) = find (\<lambda>s. oid s = j) db"
  by (induction db) auto

lemma find_append_old:
  "find (\<lambda>s. oid s = j) db = Some s \<Longrightarrow> find (\<lambda>s. oid s = j) (db @ [n]) = Some s"
  by (induction db) (auto split: if_splits)

text \<open>Every operation leaves the collection as it was, adds one new session without
  messages, updates one session keeping its id, or deletes one session. Only the update
  of a relay that answers 200 changes a message list, and it appends the utterance and
  the reply returned.\<close>

lemma step_effect:
  "step isValid cast e db op = db
   \<or> (\<exists>n. step isValid cast e db op = db @ [n] \<and> oid n \<notin> oid ` set db \<and> messages n = [])
   \<or> (\<exists>i g. step isValid cast e db op = updateFirst db i g \<and> (\<forall>s. oid (g s) = oid s)
         \<and> (\<forall>s. messages (g s) = messages s
               \<or> (\<exists>fetch now sid uid u a. op = Relay fetch now sid uid (Some u)
                     \<and> cast sid = Some i
                     \<and> fst (relay isValid cast e fetch now db sid uid (Some u))
                         = json 200 (ReplyBody a)
                     \<and> messages (g s) = messages s @ [\<lparr>role = User, content = u\<rparr>,
                                                        \<lparr>role = Assistant, content = a\<rparr>])))
   \<or> (\<exists>i sid uid. op = Delete sid uid \<and> cast sid = Some i
         \<and> step isValid cast e db op = deleteFirst db i)"
proof (cases op)
  case (Create now newId userId titleHint)
  then show ?thesis
    by (auto simp: createSession_def create_def Let_def)
next
  case (Relay fetch now sessionId userId input)
  let ?R = "relay isValid cast e fetch now db sessionId userId input"
  consider (same) "fst (snd ?R) = db"
    | (stored) inp reply k g where "input = Some inp" "cast sessionId = Some k"
        "fst ?R = json 200 (ReplyBody reply)" "fst (snd ?R) = updateFirst db k g"
        "\<forall>s. oid (g s) = oid s
               \<and> messages (g s) = messages s @ [\<lparr>role = User, content = inp\<rparr>,
                                                  \<lparr>role = Assistant, content = reply\<rparr>]"
    using relay_cases [of isValid cast e fetch now db sessionId userId input] by blast
  then show ?thesis
  proof cases
    case same
    then show ?thesis using Relay by simp
  next
    case stored
    have "step isValid cast e db op = updateFirst db k g"
      using Relay stored(4) by simp
    moreover have "\<forall>s. oid (g s) = oid s"
      using stored(5) by simp
    moreover have "\<forall>s. \<exists>fetch now sid uid u a. op = Relay fetch now sid uid (Some u)
                     \<and> cast sid = Some k
                     \<and> fst (relay isValid cast e fetch now db sid uid (Some u))
                         = json 200 (ReplyBody a)
                     \<and> messages (g s) = messages s @ [\<lparr>role = User, content = u\<rparr>,
                                                        \<lparr>role = Assistant, content = a\<rparr>]"
      using Relay stored(1,2,3,5) by auto
    ultimately show ?thesis by blast
  qed
next
  case (Share randomBytes requestBase sessionId userId)
  let ?g = "\<lambda>s. s\<lparr>shareToken := Some (toHex randomBytes)\<rparr>"
  have "step isValid cast e db op = db
      \<or> (\<exists>k. step isValid cast e db op = updateFirst db k ?g)"
    using Share
    by (cases "cast sessionId")
       (auto simp: issueShareToken_def findById_def findByIdAndUpdate_def Let_def
             split: option.splits)
  moreover have "\<forall>s. oid (?g s) = oid s" and "\<forall>s. messages (?g s) = messages s"
    by simp_all
  ultimately show ?thesis by blast
next
  case (Delete sessionId userId)
  then show ?thesis
    by (cases "cast sessionId")
       (auto simp: deleteSession_def findById_def findByIdAndDelete_def split: option.splits)
qed

lemma step_invariant:
  assumes "distinct (map oid db)" and "\<forall>s\<in>set db. even (length (messages s))"
  shows "distinct (map oid (step isValid cast e db op))
       \<and> (\<forall>s\<in>set (step isValid cast e db op). even (length (messages s)))"
proof -
  consider (same) "step isValid cast e db op = db"
    | (new) n where "step isValid cast e db op = db @ [n]" "oid n \<notin> oid ` set db"
        "messages n = []"
    | (upd) i g where "step isValid cast e db op = updateFirst db i g" "\<forall>s. oid (g s) = oid s"
        "\<forall>s. messages (g s) = messages s
               \<or> (\<exists>fetch now sid uid u a. op = Relay fetch now sid uid (Some u)
                     \<and> cast sid = Some i
                     \<and> fst (relay isValid cast e fetch now db sid uid (Some u))
                         = json 200 (ReplyBody a)
                     \<and> messages (g s) = messages s @ [\<lparr>role = User, content = u\<rparr>,
                                                        \<lparr>role = Assistant, content = a\<rparr>])"
    | (del) i sid uid where "op = Delete sid uid" "cast sid = Some i"
        "step isValid cast e db op = deleteFirst db i"
    using step_effect [of isValid cast e db op] by blast
  then show ?thesis
  proof cases
    case same
    then show ?thesis using assms by simp
  next
    case new
    then show ?thesis using assms by auto
  next
    case upd
    have "\<forall>s. even (length (messages s)) \<longrightarrow> even (length (messages (g s)))"
    proof (intro allI impI)
      fix s :: session
      assume "even (length (messages s))"
      then show "even (length (messages (g s)))"
        using upd(3) [rule_format, of s] by auto
    qed
    then have "\<forall>s\<in>set (updateFirst db i g). even (length (messages s))"
      using assms(2) by (intro update_even)
    then show ?thesis
      using assms(1) upd(1,2) by (simp add: update_oids)
  next
    case del
    then show ?thesis
      using assms delete_distinct [of db i] delete_subset [of db i] by auto
  qed
qed

lemma run_invariant:
  "distinct (map oid db) \<Longrightarrow> \<forall>s\<in>set db. even (length (messages s))
   \<Longrightarrow> distinct (map oid (run isValid cast e db ops))
       \<and> (\<forall>s\<in>set (run isValid cast e db ops). even (length (messages s)))"
proof (induction ops arbitrary: db)
  case Nil
  then show ?case by (simp add: run_def)
next
  case (Cons op ops)
  have "distinct (map oid (step isValid cast e db op))
       \<and> (\<forall>s\<in>set (step isValid cast e db op). even (length (messages s)))"
    using Cons.prems by (intro step_invariant)
  then have "distinct (map oid (run isValid cast e (step isValid cast e db op) ops))
       \<and> (\<forall>s\<in>set (run isValid cast e (step isValid cast e db op) ops).
             even (length (messages s)))"
    by (intro Cons.IH) simp_all
  then show ?case by (simp add: run_def)
qed

lemma step_growth:
  assumes "distinct (map oid db)" and "find (\<lambda>s. oid s = j) db = Some s"
    and "find (\<lambda>s. oid s = j) (step isValid cast e db op) = Some s'"
  shows "messages s' = messages s
       \<or> (\<exists>fetch now sid uid u a. op = Relay fetch now sid uid (Some u) \<and> cast sid = Some j
             \<and> fst (relay isValid cast e fetch now db sid uid (Some u)) = json 200 (ReplyBody a)
             \<and> messages s' = messages s @ [\<lparr>role = User, content = u\<rparr>,
                                            \<lparr>role = Assistant, content = a\<rparr>])"
proof -
  consider (same) "step isValid cast e db op = db"
    | (new) n where "step isValid cast e db op = db @ [n]"
    | (upd) i g where "step isValid cast e db op = updateFirst db i g" "\<forall>s. oid (g s) = oid s"
        "\<forall>s. messages (g s) = messages s
               \<or> (\<exists>fetch now sid uid u a. op = Relay fetch now sid uid (Some u)
                     \<and> cast sid = Some i
                     \<and> fst (relay isValid cast e fetch now db sid uid (Some u))
                         = json 200 (ReplyBody a)
                     \<and> messages (g s) = messages s @ [\<lparr>role = User, content = u\<rparr>,
                                                        \<lparr>role = Assistant, content = a\<rparr>])"
    | (del) i sid uid where "op = Delete sid uid" "cast sid = Some i"
        "step isValid cast e db op = deleteFirst db i"
    using step_effect [of isValid cast e db op] by blast
  then show ?thesis
  proof cases
    case same
    then show ?thesis using assms by simp
  next
    case new
    then show ?thesis using assms by (simp add: find_append_old)
  next
    case upd
    have "s' = (if i = j then g s else s)"
      using assms(2,3) upd(1,2) by (simp add: find_update_cases)
    then show ?thesis
      using upd(3) [rule_format, of s] by (cases "i = j") auto
  next
    case del
    show ?thesis
    proof (cases "i = j")
      case True
      have "j \<notin> oid ` set (deleteFirst db j)"
        using assms(1) by (rule delete_removes)
      then have "find (\<lambda>s. oid s = j) (deleteFirst db j) = None"
        by (simp add: find_oid_None)
      then show ?thesis
        using assms(3) del(3) True by simp
    next
      case False
      then show ?thesis
        using assms(2,3) del(3) by (simp add: find_delete_other)
    qed
  qed
qed

lemma step_keeps:
  assumes "\<forall>sid uid. cast sid = Some j \<longrightarrow> op \<noteq> Delete sid uid"
    and "find (\<lambda>s. oid s = j) db = Some s"
  shows "\<exists>s1. find (\<lambda>s. oid s = j) (step isValid cast e db op) = Some s1"
proof -
  consider (same) "step isValid cast e db op = db"
    | (new) n where "step isValid cast e db op = db @ [n]"
    | (upd) i g where "step isValid cast e db op = updateFirst db i g" "\<forall>s. oid (g s) = oid s"
    | (del) i sid uid where "op = Delete sid uid" "cast sid = Some i"
        "step isValid cast e db op = deleteFirst db i"
    using step_effect [of isValid cast e db op] by blast
  then show ?thesis
  proof cases
    case same
    then show ?thesis using assms by simp
  next
    case new
    then show ?thesis using assms by (simp add: find_append_old)
  next
    case upd
    then show ?thesis using assms(2) by (simp add: find_update_cases)
  next
    case del
    then have "i \<noteq> j" using assms(1) by auto
    then show ?thesis using assms(2) del(3) by (simp add: find_delete_other)
  qed
qed

lemma run_growth:
  assumes "distinct (map oid db)" and "\<forall>s\<in>set db. even (length (messages s))"
    and "find (\<lambda>s. oid s = j) db = Some s"
    and "find (\<lambda>s. oid s = j) (run isValid cast e db ops) = Some s'"
    and "\<forall>sid uid. cast sid = Some j \<longrightarrow> Delete sid uid \<notin> set ops"
  shows "prefix (messages s) (messages s')"
  using assms
proof (induction ops arbitrary: db s)
  case Nil
  then show ?case by (simp add: run_def)
next
  case (Cons op ops)
  have nd: "\<forall>sid uid. cast sid = Some j \<longrightarrow> op \<noteq> Delete sid uid"
    using Cons.prems(5) by auto
  obtain s1 where s1: "find (\<lambda>s. oid s = j) (step isValid cast e db op) = Some s1"
    using step_keeps [OF nd Cons.prems(3)] by blast
  have "prefix (messages s) (messages s1)"
    using step_growth [OF Cons.prems(1) Cons.prems(3) s1] by auto
  moreover have "prefix (messages s1) (messages s')"
  proof (rule Cons.IH [OF _ _ s1])
    show "distinct (map oid (step isValid cast e db op))"
      using step_invariant [OF Cons.prems(1,2)] by simp
    show "\<forall>s\<in>set (step isValid cast e db op). even (length (messages s))"
      using step_invariant [OF Cons.prems(1,2)] by simp
    show "find (\<lambda>s. oid s = j) (run isValid cast e (step isValid cast e db op) ops) = Some s'"
      using Cons.prems(4) by (simp add: run_def)
    show "\<forall>sid uid. cast sid = Some j \<longrightarrow> Delete sid uid \<notin> set ops"
      using Cons.prems(5) by simp
  qed
  ultimately show ?case
    by (rule prefix_order.trans)
qed


text \<open>
  C9: in every collection reached from the empty one by creating, relaying, sharing and
  deleting, every session holds an even number of messages. One more operation changes
  the message list of a session that is there before and after only if it is a relay
  that addresses that session, carries an utterance and answers 200 with a reply, and
  then by appending the pair of that utterance and that reply; a relay call that changes
  the collection at all answers 200 with a reply. Over any further operations that do
  not delete the session, the old list stays a prefix of the new one.
\<close>

theorem messages_even_and_append_only:
  assumes "db = run isValid cast e [] ops"
  shows "(\<forall>s\<in>set db. even (length (messages s)))
       \<and> (\<forall>s s'. find (\<lambda>x. oid x = i) db = Some s
                 \<and> find (\<lambda>x. oid x = i) (step isValid cast e db op) = Some s' \<longrightarrow>
              messages s' = messages s
              \<or> (\<exists>fetch now sid uid u a. op = Relay fetch now sid uid (Some u)
                    \<and> cast sid = Some i
                    \<and> fst (relay isValid cast e fetch now db sid uid (Some u))
                        = json 200 (ReplyBody a)
                    \<and> messages s' = messages s @ [\<lparr>role = User, content = u\<rparr>,
                                                   \<lparr>role = Assistant, content = a\<rparr>]))
       \<and> (fst (snd (relay isValid cast e fetch now db sessionId userId input)) \<noteq> db \<longrightarrow>
             (\<exists>reply. fst (relay isValid cast e fetch now db sessionId userId input)
                         = json 200 (ReplyBody reply)))
       \<and> (\<forall>s s'. find (\<lambda>x. oid x = i) db = Some s
                 \<and> find (\<lambda>x. oid x = i) (run isValid cast e db later) = Some s'
                 \<and> (\<forall>sid uid. cast sid = Some i \<longrightarrow> Delete sid uid \<notin> set later) \<longrightarrow>
              prefix (messages s) (messages s'))"
proof -
  have inv: "distinct (map oid db) \<and> (\<forall>s\<in>set db. even (length (messages s)))"
    unfolding assms by (rule run_invariant) simp_all
  show ?thesis
  proof (intro conjI allI impI)
    show "\<forall>s\<in>set db. even (length (messages s))"
      using inv by simp
  next
    fix s s'
    assume "find (\<lambda>x. oid x = i) db = Some s
              \<and> find (\<lambda>x. oid x = i) (step isValid cast e db op) = Some s'"
    then show "messages s' = messages s
              \<or> (\<exists>fetch now sid uid u a. op = Relay fetch now sid uid (Some u)
                    \<and> cast sid = Some i
                    \<and> fst (relay isValid cast e fetch now db sid uid (Some u))
                        = json 200 (ReplyBody a)
                    \<and> messages s' = messages s @ [\<lparr>role = User, content = u\<rparr>,
                                                   \<lparr>role = Assistant, content = a\<rparr>])"
      using inv step_growth [of db i s isValid cast e op s'] by blast
  next
    assume "fst (snd (relay isValid cast e fetch now db sessionId userId input)) \<noteq> db"
    then show "\<exists>reply. fst (relay isValid cast e fetch now db sessionId userId input)
                         = json 200 (ReplyBody reply)"
      by (rule relay_changes_only_on_success)
  next
    fix s s'
    assume "find (\<lambda>x. oid x = i) db = Some s
              \<and> find (\<lambda>x. oid x = i) (run isValid cast e db later) = Some s'
              \<and> (\<forall>sid uid. cast sid = Some i \<longrightarrow> Delete sid uid \<notin> set later)"
    then show "prefix (messages s) (messages s')"
      using inv run_growth [of db i s isValid cast e later s'] by blast
  qed
qed

theorem messages_even_and_append_only_witness:
  "[oneExchange] = run hex24 objectId liveEnv []
                     [Create 0 exampleId alice None,
                      Relay (replies (lit ''Hi'')) 2 exampleIdUpper alice (Some (lit ''Hello''))]
   \<and> even (length (messages oneExchange))
   \<and> find (\<lambda>x. oid x = exampleId) [oneExchange] = Some oneExchange
   \<and> relay hex24 objectId liveEnv (blocks (lit ''SAFETY'')) 3 [oneExchange] exampleIdUpper alice
        (Some (lit ''More''))
       = (json 200 (ReplyBody (lit ''Your prompt was blocked due to: SAFETY.'')), [twoExchanges],
          [providerRequest liveEnv (lit ''key'') (lit ''More'')])
   \<and> find (\<lambda>x. oid x = exampleId)
        (step hex24 objectId liveEnv [oneExchange]
           (Relay (blocks (lit ''SAFETY'')) 3 exampleIdUpper alice (Some (lit ''More''))))
       = Some twoExchanges
   \<and> messages twoExchanges
       = messages oneExchange @ [\<lparr>role = User, content = lit ''More''\<rparr>,
                                  \<lparr>role = Assistant,
                                   content = lit ''Your prompt was blocked due to: SAFETY.''\<rparr>]
   \<and> step hex24 objectId liveEnv [oneExchange]
        (Relay (refuses 403 (lit ''denied'')) 3 exampleIdUpper alice (Some (lit ''More'')))
       = [oneExchange]
   \<and> find (\<lambda>x. oid x = exampleId)
        (run hex24 objectId liveEnv [oneExchange]
           [Relay (blocks (lit ''SAFETY'')) 3 exampleIdUpper alice (Some (lit ''More'')),
            Share bytesA (lit ''http://localhost:5000'') exampleId alice])
       = Some (twoExchanges\<lparr>shareToken := Some (toHex bytesA)\<rparr>)
   \<and> prefix (messages oneExchange) (messages (twoExchanges\<lparr>shareToken := Some (toHex bytesA)\<rparr>))"
proof -
  let ?blocked = "Relay (blocks (lit ''SAFETY'')) 3 exampleIdUpper alice (Some (lit ''More''))"
  let ?share = "Share bytesA (lit ''http://localhost:5000'') exampleId alice"
  have cst: "findById objectId db exampleIdUpper = Inr (find (\<lambda>s. oid s = exampleId) db)"
    "findByIdAndUpdate objectId db exampleIdUpper g = Inr (updateFirst db exampleId g)"
    "findById objectId db exampleId = Inr (find (\<lambda>s. oid s = exampleId) db)"
    "findByIdAndUpdate objectId db exampleId g = Inr (updateFirst db exampleId g)" for db g
    by (simp_all add: findById_def findByIdAndUpdate_def objectId_exampleIdUpper
        objectId_exampleId)
  have c: "step hex24 objectId liveEnv [] (Create 0 exampleId alice None) = [emptySession]"
    by (simp add: createSession_def create_def emptySession_def Let_def)
  have r: "step hex24 objectId liveEnv [emptySession]
             (Relay (replies (lit ''Hi'')) 2 exampleIdUpper alice (Some (lit ''Hello'')))
           = [oneExchange]"
    by (simp add: relay_def cst hex24_exampleIdUpper exampleIdUpper_differs emptySession_fields
        liveEnv_key onFetched_def replies_def ok_def onReply_def pushPair_def derivedTitle_def
        Let_def oneExchange_def emptySession_def lit_def)
  have d: "[oneExchange] = run hex24 objectId liveEnv []
                     [Create 0 exampleId alice None,
                      Relay (replies (lit ''Hi'')) 2 exampleIdUpper alice (Some (lit ''Hello''))]"
    unfolding run_def foldl.simps c r ..
  have o: "oid oneExchange = exampleId" "owner oneExchange = alice"
    by (simp_all add: oneExchange_def emptySession_fields)
  have f: "find (\<lambda>x. oid x = exampleId) [oneExchange] = Some oneExchange"
    by (simp add: o)
  have rb: "relay hex24 objectId liveEnv (blocks (lit ''SAFETY'')) 3 [oneExchange] exampleIdUpper
              alice (Some (lit ''More''))
       = (json 200 (ReplyBody (lit ''Your prompt was blocked due to: SAFETY.'')), [twoExchanges],
          [providerRequest liveEnv (lit ''key'') (lit ''More'')])"
    by (simp add: relay_def cst hex24_exampleIdUpper exampleIdUpper_differs o
        liveEnv_key onFetched_def blocks_def ok_def onBlocked_def pushPair_def blockNotice_def
        Let_def twoExchanges_def lit_def)
  have b: "step hex24 objectId liveEnv [oneExchange] ?blocked = [twoExchanges]"
    by (simp add: rb)
  have rf: "step hex24 objectId liveEnv [oneExchange]
        (Relay (refuses 403 (lit ''denied'')) 3 exampleIdUpper alice (Some (lit ''More'')))
       = [oneExchange]"
    by (simp add: relay_def cst hex24_exampleIdUpper exampleIdUpper_differs o
        liveEnv_key onFetched_def refuses_def ok_def Let_def)
  have o2: "oid twoExchanges = exampleId" "owner twoExchanges = alice"
    by (simp_all add: twoExchanges_def o)
  have f2: "find (\<lambda>x. oid x = exampleId) (step hex24 objectId liveEnv [oneExchange] ?blocked)
              = Some twoExchanges"
    by (simp only: b) (simp add: o2)
  have s: "step hex24 objectId liveEnv [twoExchanges] ?share
             = [twoExchanges\<lparr>shareToken := Some (toHex bytesA)\<rparr>]"
    by (simp add: issueShareToken_def cst o2 Let_def)
  have f3: "find (\<lambda>x. oid x = exampleId)
              (run hex24 objectId liveEnv [oneExchange] [?blocked, ?share])
              = Some (twoExchanges\<lparr>shareToken := Some (toHex bytesA)\<rparr>)"
    unfolding run_def foldl.simps b s by (simp add: o2)
  have nd: "\<forall>sid uid. objectId sid = Some exampleId \<longrightarrow> Delete sid uid \<notin> set [?blocked, ?share]"
    by simp
  have m: "messages twoExchanges
       = messages oneExchange @ [\<lparr>role = User, content = lit ''More''\<rparr>,
                                  \<lparr>role = Assistant,
                                   content = lit ''Your prompt was blocked due to: SAFETY.''\<rparr>]"
    by (simp add: twoExchanges_def)
  from messages_even_and_append_only [OF d, of exampleId ?blocked _ _ _ _ _ "[?blocked, ?share]"]
    f f3 nd
  have "even (length (messages oneExchange))
      \<and> prefix (messages oneExchange) (messages (twoExchanges\<lparr>shareToken := Some (toHex bytesA)\<rparr>))"
    by auto
  with d f rb f2 m rf f3 show ?thesis
    by blast
qed

end
